theory Spec2Isabelle
  imports Complex_Main "HOL-Library.Sublist"
begin

section \<open>JavaScript values\<close>

text \<open>
  The programs read documents produced by \<^verbatim>\<open>JSON.parse\<close> and typed \<^verbatim>\<open>any\<close>.
  A number is an IEEE double: a finite value (idealised here as a real, so rounding and
  signed zeros are not modelled), one of the two infinities, or NaN. An object is the list
  of its own properties in \<^verbatim>\<open>Object.entries\<close> order. Strings are byte strings; only the
  ASCII letters have a case.
\<close>

datatype jsnum = Fin real | PosInf | NegInf | NaN

datatype jsval =
    JUndefined
  | JNull
  | JBool bool
  | JNum jsnum
  | JStr string
  | JArr "jsval list"
  | JObj "(string \<times> jsval) list"

text \<open>
  The conversions between numbers, strings and dates are primitives of the host
  (\<^verbatim>\<open>Number.prototype.toString\<close>, \<^verbatim>\<open>Number(string)\<close>, \<^verbatim>\<open>new Date(v).getTime()\<close>). They are
  parameters of the model: \<open>dateTime\<close> reads a primitive value as a date and gives
  \<open>None\<close> for an invalid date, whose time value is NaN.
\<close>

record host =
  numToString :: "jsnum \<Rightarrow> string"
  stringToNum :: "string \<Rightarrow> jsnum"
  dateTime :: "jsval \<Rightarrow> real option"

text \<open>
  A host for the closed examples: it prints every finite number as 0, reads the empty
  string as 0 and no other string as a number, and takes the finite numbers, and nothing
  else, as dates. The examples use its dates only: a finite number is a time value, and
  the text "soon" is not a date.
\<close>

definition plainHost :: host where
  "plainHost = \<lparr> numToString = case_jsnum (\<lambda>r. ''0'') ''Infinity'' ''-Infinity'' ''NaN'',
                 stringToNum = case_list (Fin 0) (\<lambda>c cs. NaN),
                 dateTime = case_jsval None None (\<lambda>b. None) (case_jsnum Some None None None)
                              (\<lambda>s. None) (\<lambda>xs. None) (\<lambda>kvs. None) \<rparr>"

fun isFinite :: "jsnum \<Rightarrow> bool" where
  "isFinite (Fin r) = True"
| "isFinite PosInf = False"
| "isFinite NegInf = False"
| "isFinite NaN = False"

text \<open>\<^verbatim>\<open>v === undefined || v === null\<close>, the test behind \<^verbatim>\<open>??\<close> and \<^verbatim>\<open>?.\<close>.\<close>

fun nullish :: "jsval \<Rightarrow> bool" where
  "nullish JUndefined = True"
| "nullish JNull = True"
| "nullish v = False"

text \<open>\<^verbatim>\<open>a ?? b\<close>\<close>

definition orElse :: "jsval \<Rightarrow> jsval \<Rightarrow> jsval" where
  "orElse a b = (if nullish a then b else a)"

text \<open>Truthiness, the test behind \<^verbatim>\<open>||\<close>, \<^verbatim>\<open>!\<close> and \<^verbatim>\<open>if\<close>.\<close>

fun truthy :: "jsval \<Rightarrow> bool" where
  "truthy JUndefined = False"
| "truthy JNull = False"
| "truthy (JBool b) = b"
| "truthy (JNum (Fin r)) = (r \<noteq> 0)"
| "truthy (JNum PosInf) = True"
| "truthy (JNum NegInf) = True"
| "truthy (JNum NaN) = False"
| "truthy (JStr s) = (s \<noteq> [])"
| "truthy (JArr xs) = True"
| "truthy (JObj kvs) = True"

text \<open>\<^verbatim>\<open>a || b\<close>\<close>

definition orTruthy :: "jsval \<Rightarrow> jsval \<Rightarrow> jsval" where
  "orTruthy a b = (if truthy a then a else b)"

text \<open>
  \<^verbatim>\<open>v?.k\<close> for a property name \<open>k\<close> that no built-in prototype defines for strings,
  arrays or plain objects (the programs read only such names): an own property of an
  object, and \<^verbatim>\<open>undefined\<close> on everything else, a nullish receiver included.
\<close>

fun getProp :: "jsval \<Rightarrow> string \<Rightarrow> jsval" where
  "getProp (JObj kvs) k = (case map_of kvs k of Some v \<Rightarrow> v | None \<Rightarrow> JUndefined)"
| "getProp v k = JUndefined"

fun isArray :: "jsval \<Rightarrow> bool" where
  "isArray (JArr xs) = True"
| "isArray v = False"

fun join :: "string list \<Rightarrow> string" where
  "join [] = []"
| "join [s] = s"
| "join (s # t # ts) = s @ '','' @ join (t # ts)"

text \<open>\<^verbatim>\<open>String(v)\<close>, which is \<^verbatim>\<open>v.toString()\<close> where \<open>v\<close> is not nullish.\<close>

fun toString :: "host \<Rightarrow> jsval \<Rightarrow> string" where
  "toString H JUndefined = ''undefined''"
| "toString H JNull = ''null''"
| "toString H (JBool b) = (if b then ''true'' else ''false'')"
| "toString H (JNum n) = numToString H n"
| "toString H (JStr s) = s"
| "toString H (JArr xs) = join (map (\<lambda>x. if nullish x then [] else toString H x) xs)"
| "toString H (JObj kvs) = ''[object Object]''"

text \<open>
  The conversion to a string throws a TypeError for an object that has a property
  \<^verbatim>\<open>toString\<close> of its own, which in a parsed document is never a function, and for
  an array with such an object among its elements; \<open>toString\<close> gives the string of
  every other value. The track builder below is modelled with \<open>toString\<close>, that is
  where its conversions return: where one throws, the track builder has no output.
\<close>

datatype jsError = TypeError

fun stringable :: "jsval \<Rightarrow> bool" where
  "stringable (JObj kvs) = (''toString'' \<notin> set (map fst kvs))"
| "stringable (JArr xs) = list_all (\<lambda>x. nullish x \<or> stringable x) xs"
| "stringable v = True"

text \<open>\<^verbatim>\<open>String(v)\<close> with its error.\<close>

definition toStringE :: "host \<Rightarrow> jsval \<Rightarrow> jsError + string" where
  "toStringE H v = (if stringable v then Inr (toString H v) else Inl TypeError)"

text \<open>
  \<^verbatim>\<open>new Date(v).getTime()\<close>, with \<open>None\<close> for the NaN of an invalid date. An object or
  an array is first converted to a primitive, which is its string or a TypeError; the
  host reads the primitives.
\<close>

definition newDate :: "host \<Rightarrow> jsval \<Rightarrow> jsError + real option" where
  "newDate H v =
     (if \<not> stringable v then Inl TypeError
      else Inr (dateTime H (case v of
                              JObj kvs \<Rightarrow> JStr (toString H v)
                            | JArr xs \<Rightarrow> JStr (toString H v)
                            | _ \<Rightarrow> v)))"

definition lowerChar :: "char \<Rightarrow> char" where
  "lowerChar c = (let n = (of_char c :: nat) in if 65 \<le> n \<and> n \<le> 90 then char_of (n + 32) else c)"

definition upperChar :: "char \<Rightarrow> char" where
  "upperChar c = (let n = (of_char c :: nat) in if 97 \<le> n \<and> n \<le> 122 then char_of (n - 32) else c)"

definition toLowerCase :: "string \<Rightarrow> string" where
  "toLowerCase s = map lowerChar s"

definition toUpperCase :: "string \<Rightarrow> string" where
  "toUpperCase s = map upperChar s"

fun startsWith :: "string \<Rightarrow> string \<Rightarrow> bool" where
  "startsWith s [] = True"
| "startsWith [] (p # ps) = False"
| "startsWith (c # cs) (p # ps) = (c = p \<and> startsWith cs ps)"

text \<open>\<^verbatim>\<open>s.includes(sub)\<close>\<close>

fun strIncludes :: "string \<Rightarrow> string \<Rightarrow> bool" where
  "strIncludes [] sub = (sub = [])"
| "strIncludes (c # cs) sub = (startsWith (c # cs) sub \<or> strIncludes cs sub)"

section \<open>The track builder (parseHawkEye.ts)\<close>

text \<open>
  \<^verbatim>\<open>
  function normalizeRole(raw: any): string {
    const s = (raw?.name ?? raw ?? "").toString().toLowerCase();
    if (s.includes("pitch")) return "pitcher";
    if (s.includes("bat") || s.includes("hit")) return "hitter";
    return s || "unknown";
  }
  \<close>
\<close>

definition normalizeRole :: "host \<Rightarrow> jsval \<Rightarrow> string" where
  "normalizeRole H raw =
     (let s = toLowerCase (toString H (orElse (orElse (getProp raw ''name'') raw) (JStr [])))
      in if strIncludes s ''pitch'' then ''pitcher''
         else if strIncludes s ''bat'' \<or> strIncludes s ''hit'' then ''hitter''
         else if s \<noteq> [] then s else ''unknown'')"

text \<open>
  \<^verbatim>\<open>Number(v)\<close>. An array is converted through its string, an object gives NaN.
\<close>

fun toNumber :: "host \<Rightarrow> jsval \<Rightarrow> jsnum" where
  "toNumber H JUndefined = NaN"
| "toNumber H JNull = Fin 0"
| "toNumber H (JBool b) = Fin (if b then 1 else 0)"
| "toNumber H (JNum n) = n"
| "toNumber H (JStr s) = stringToNum H s"
| "toNumber H (JArr xs) = stringToNum H (toString H (JArr xs))"
| "toNumber H (JObj kvs) = NaN"

text \<open>
  \<^verbatim>\<open>
  function num(v: any): number | null {
    const n = Number(v);
    return Number.isFinite(n) ? n : null;
  }
  \<close>
\<close>

definition num :: "host \<Rightarrow> jsval \<Rightarrow> real option" where
  "num H v = (case toNumber H v of Fin r \<Rightarrow> Some r | _ \<Rightarrow> None)"

text \<open>
  \<^verbatim>\<open>
  function extractFPS(root: any, person?: any): number {
    return (
      num(person?.system?.targetFrameRate) ??
      num(root?.samples?.system?.targetFrameRate) ??
      num(root?.system?.targetFrameRate) ??
      300
    ) as number;
  }
  \<close>
\<close>

definition extractFPS :: "host \<Rightarrow> jsval \<Rightarrow> jsval \<Rightarrow> real" where
  "extractFPS H doc person =
     (case num H (getProp (getProp person ''system'') ''targetFrameRate'') of
        Some r \<Rightarrow> r
      | None \<Rightarrow>
         (case num H (getProp (getProp (getProp doc ''samples'') ''system'') ''targetFrameRate'') of
            Some r \<Rightarrow> r
          | None \<Rightarrow>
             (case num H (getProp (getProp doc ''system'') ''targetFrameRate'') of
                Some r \<Rightarrow> r
              | None \<Rightarrow> 300)))"

text \<open>\<^verbatim>\<open>Number.isFinite(v)\<close>: false for everything that is not a number.\<close>

fun isFiniteNumber :: "jsval \<Rightarrow> bool" where
  "isFiniteNumber (JNum n) = isFinite n"
| "isFiniteNumber v = False"

text \<open>The decimal digits of an array index, the key \<^verbatim>\<open>Object.entries\<close> gives it.\<close>

fun natToString :: "nat \<Rightarrow> string" where
  "natToString n =
     (if n < 10 then [char_of (48 + n)]
      else natToString (n div 10) @ [char_of (48 + n mod 10)])"

text \<open>
  \<^verbatim>\<open>Object.entries(J)\<close> under the guard \<^verbatim>\<open>J && typeof J === "object"\<close>: the properties
  of an object, the indexed elements of an array, and nothing for the other values.
\<close>

fun entries :: "jsval \<Rightarrow> (string \<times> jsval) list" where
  "entries (JObj kvs) = kvs"
| "entries (JArr xs) = map (\<lambda>(i, x). (natToString i, x)) (enumerate 0 xs)"
| "entries v = []"

text \<open>
  \<^verbatim>\<open>out[k] = v\<close> on a plain object: an existing property keeps its place, a new one is
  added last. (The key \<^verbatim>\<open>__proto__\<close>, which names no own property, is not modelled.)
\<close>

fun setProp :: "(string \<times> 'a) list \<Rightarrow> string \<Rightarrow> 'a \<Rightarrow> (string \<times> 'a) list" where
  "setProp [] k v = [(k, v)]"
| "setProp ((k', v') # ps) k v = (if k' = k then (k, v) # ps else (k', v') # setProp ps k v)"

text \<open>
  A frame, \<^verbatim>\<open>{ time, joints }\<close>. In a parsed track the time is a number that may
  fail to be finite, and the joint values are kept as the arrays the builder stores, so
  that what they contain is a property to prove and not a matter of typing.
\<close>

record ('t, 'j) frame =
  time :: 't
  joints :: 'j

type_synonym pframe = "(jsnum, (string \<times> jsval list) list) frame"

text \<open>
  \<^verbatim>\<open>i / fps\<close> for a frame index \<open>i\<close> and a finite \<open>fps\<close>. The sign of a zero \<open>fps\<close>
  is not modelled.
\<close>

definition indexOver :: "nat \<Rightarrow> real \<Rightarrow> jsnum" where
  "indexOver i fps = (if fps \<noteq> 0 then Fin (real i / fps) else if i = 0 then NaN else PosInf)"

text \<open>
  \<^verbatim>\<open>
  for (const [k, v] of Object.entries(J)) {
    if (Array.isArray(v) && v.length === 3 && v.every(Number.isFinite)) {
      out[k] = [v[0], v[1], v[2]];
    }
  }
  \<close>
\<close>

fun collectTriples :: "(string \<times> jsval list) list \<Rightarrow> (string \<times> jsval) list \<Rightarrow> (string \<times> jsval list) list" where
  "collectTriples out [] = out"
| "collectTriples out ((k, JArr v) # es) =
     (if length v = 3 \<and> list_all isFiniteNumber v
      then collectTriples (setProp out k [v ! 0, v ! 1, v ! 2]) es
      else collectTriples out es)"
| "collectTriples out ((k, v) # es) = collectTriples out es"

text \<open>
  \<^verbatim>\<open>
  function buildFramesFromPerson(person: any, fps: number) {
    const jointsArr = Array.isArray(person?.joints) ? person.joints : null;
    if (!jointsArr || !jointsArr.length) return [];
    const frames = jointsArr.map((J: any, i: number) => {
      const out: Record<string, V3> = {};
      if (J && typeof J === "object") { ... }
      return { time: i / fps, joints: out };
    });
    return frames;
  }
  \<close>
\<close>

definition buildFrame :: "real \<Rightarrow> nat \<times> jsval \<Rightarrow> pframe" where
  "buildFrame fps iJ = \<lparr> time = indexOver (fst iJ) fps, joints = collectTriples [] (entries (snd iJ)) \<rparr>"

definition buildFramesFromPerson :: "jsval \<Rightarrow> real \<Rightarrow> pframe list" where
  "buildFramesFromPerson person fps =
     (case getProp person ''joints'' of
        JArr jointsArr \<Rightarrow> map (buildFrame fps) (enumerate 0 jointsArr)
      | _ \<Rightarrow> [])"

text \<open>
  A parsed track. The two metric bags, read once from the document and attached by role,
  take no part in the frames and are left out.
\<close>

record ParsedTrack =
  role :: string
  name :: jsval
  personId :: jsval
  fps :: real
  frames :: "pframe list"

text \<open>
  \<^verbatim>\<open>
  for (const person of people) {
    const fps = extractFPS(root, person);
    const frames = buildFramesFromPerson(person, fps);
    if (!frames.length) continue;
    const role = normalizeRole(person?.role);
    const name = person?.name || person?.fullName || person?.displayName || undefined;
    const track: ParsedTrack = { role, name, personId: person?.personId, fps, frames };
    ...
    out.push(track);
  }
  \<close>
\<close>

fun parsePeople :: "host \<Rightarrow> jsval \<Rightarrow> jsval list \<Rightarrow> ParsedTrack list" where
  "parsePeople H doc [] = []"
| "parsePeople H doc (person # people) =
     (let fps = extractFPS H doc person;
          frames = buildFramesFromPerson person fps
      in if frames = [] then parsePeople H doc people
         else \<lparr> role = normalizeRole H (getProp person ''role''),
                name = orTruthy (getProp person ''name'')
                         (orTruthy (getProp person ''fullName'')
                           (orTruthy (getProp person ''displayName'') JUndefined)),
                personId = getProp person ''personId'',
                fps = fps,
                frames = frames \<rparr> # parsePeople H doc people)"

text \<open>
  \<^verbatim>\<open>
  export function parseHawkEyeJson(root: any): ParsedTrack[] {
    const out: ParsedTrack[] = [];
    const people = Array.isArray(root?.samples?.people) ? root.samples.people : null;
    if (people && people.length) { ... }
    return out;
  }
  \<close>
\<close>

definition parseHawkEyeJson :: "host \<Rightarrow> jsval \<Rightarrow> ParsedTrack list" where
  "parseHawkEyeJson H doc =
     (case getProp (getProp doc ''samples'') ''people'' of
        JArr people \<Rightarrow> parsePeople H doc people
      | _ \<Rightarrow> [])"

section \<open>Release time from the document (HawkEyeVisualizer3D.tsx)\<close>

text \<open>
  \<^verbatim>\<open>
  function extractReleaseSecondsFromJson(root: any): number | undefined {
    const events = root?.events ?? root?.details?.events ?? [];
    const pitchEvt = Array.isArray(events)
      ? events.find((e: any) => String(e?.type || "").toUpperCase() === "PITCH")
      : undefined;
    const relUTC =
      pitchEvt?.refinedReleaseTimeUTC ?? pitchEvt?.releaseTimeUTC ??
      pitchEvt?.ballReleaseTimeUTC ?? pitchEvt?.releaseUtc ?? null;
    if (!relUTC) return undefined;
    const startUTC =
      root?.time?.startUTC ?? root?.timeline?.startUTC ?? root?.meta?.startUTC ?? null;
    if (!startUTC) return undefined;
    const relMs = new Date(relUTC).getTime() - new Date(startUTC).getTime();
    return relMs / 1000;
  }
  \<close>
  A result \<open>Inl\<close> is the error thrown, \<open>Inr None\<close> is \<^verbatim>\<open>undefined\<close>. The time value
  of an invalid date is NaN, and so is every difference and quotient made from it.
  \<^verbatim>\<open>find\<close> converts the type of each event in turn until one is a PITCH.
\<close>

fun findPitch :: "host \<Rightarrow> jsval list \<Rightarrow> jsError + jsval" where
  "findPitch H [] = Inr JUndefined"
| "findPitch H (e # es) =
     (case toStringE H (orTruthy (getProp e ''type'') (JStr [])) of
        Inl err \<Rightarrow> Inl err
      | Inr s \<Rightarrow> if toUpperCase s = ''PITCH'' then Inr e else findPitch H es)"

definition pitchEvt :: "host \<Rightarrow> jsval \<Rightarrow> jsError + jsval" where
  "pitchEvt H doc =
     (case orElse (getProp doc ''events'') (orElse (getProp (getProp doc ''details'') ''events'') (JArr [])) of
        JArr events \<Rightarrow> findPitch H events
      | _ \<Rightarrow> Inr JUndefined)"

definition relUTC :: "jsval \<Rightarrow> jsval" where
  "relUTC p =
     orElse (getProp p ''refinedReleaseTimeUTC'')
       (orElse (getProp p ''releaseTimeUTC'')
         (orElse (getProp p ''ballReleaseTimeUTC'')
           (orElse (getProp p ''releaseUtc'') JNull)))"

definition startUTC :: "jsval \<Rightarrow> jsval" where
  "startUTC doc =
     orElse (getProp (getProp doc ''time'') ''startUTC'')
       (orElse (getProp (getProp doc ''timeline'') ''startUTC'')
         (orElse (getProp (getProp doc ''meta'') ''startUTC'') JNull))"

text \<open>The quotient \<^verbatim>\<open>relMs / 1000\<close> from the two time values.\<close>

fun releaseSeconds :: "real option \<Rightarrow> real option \<Rightarrow> jsnum" where
  "releaseSeconds (Some rel) (Some start) = Fin ((rel - start) / 1000)"
| "releaseSeconds rel start = NaN"

definition extractReleaseSecondsFromJson :: "host \<Rightarrow> jsval \<Rightarrow> jsError + jsnum option" where
  "extractReleaseSecondsFromJson H doc =
     (case pitchEvt H doc of
        Inl err \<Rightarrow> Inl err
      | Inr p \<Rightarrow>
         if \<not> truthy (relUTC p) then Inr None
         else if \<not> truthy (startUTC doc) then Inr None
         else (case newDate H (relUTC p) of
                 Inl err \<Rightarrow> Inl err
               | Inr rel \<Rightarrow>
                  (case newDate H (startUTC doc) of
                     Inl err \<Rightarrow> Inl err
                   | Inr start \<Rightarrow> Inr (Some (releaseSeconds rel start)))))"

text \<open>
  Documents with a PITCH event and a clip start of 1000 ms: the release time is the
  number 3500, or the text "soon", which is no date, or absent.
\<close>

definition releaseDoc :: "jsval \<Rightarrow> jsval" where
  "releaseDoc rel =
     JObj [(''events'', JArr [JObj [(''type'', JStr ''contact'')],
                             JObj [(''type'', JStr ''Pitch''), (''releaseTimeUTC'', rel)]]),
           (''time'', JObj [(''startUTC'', JNum (Fin 1000))])]"

section \<open>Arithmetic on numbers\<close>

text \<open>
  The arithmetic of doubles on the four kinds of number, without rounding and overflow
  and with one zero. A division of a non-zero number by zero gives the infinity that a
  positive zero gives.
\<close>

fun jsNeg :: "jsnum \<Rightarrow> jsnum" where
  "jsNeg (Fin x) = Fin (- x)"
| "jsNeg PosInf = NegInf"
| "jsNeg NegInf = PosInf"
| "jsNeg NaN = NaN"

fun jsAdd :: "jsnum \<Rightarrow> jsnum \<Rightarrow> jsnum" where
  "jsAdd (Fin x) (Fin y) = Fin (x + y)"
| "jsAdd NaN b = NaN"
| "jsAdd a NaN = NaN"
| "jsAdd PosInf NegInf = NaN"
| "jsAdd NegInf PosInf = NaN"
| "jsAdd PosInf b = PosInf"
| "jsAdd a PosInf = PosInf"
| "jsAdd NegInf b = NegInf"
| "jsAdd a NegInf = NegInf"

definition jsSub :: "jsnum \<Rightarrow> jsnum \<Rightarrow> jsnum" where
  "jsSub a b = jsAdd a (jsNeg b)"

fun jsMul :: "jsnum \<Rightarrow> jsnum \<Rightarrow> jsnum" where
  "jsMul (Fin x) (Fin y) = Fin (x * y)"
| "jsMul NaN b = NaN"
| "jsMul a NaN = NaN"
| "jsMul (Fin x) b = (if x = 0 then NaN else if (0 < x) = (b = PosInf) then PosInf else NegInf)"
| "jsMul a (Fin y) = (if y = 0 then NaN else if (0 < y) = (a = PosInf) then PosInf else NegInf)"
| "jsMul a b = (if a = b then PosInf else NegInf)"


fun jsAbs :: "jsnum \<Rightarrow> jsnum" where
  "jsAbs (Fin x) = Fin \<bar>x\<bar>"
| "jsAbs PosInf = PosInf"
| "jsAbs NegInf = PosInf"
| "jsAbs NaN = NaN"


text \<open>\<^verbatim>\<open>a < b\<close>: false when an argument is NaN.\<close>

fun jsLess :: "jsnum \<Rightarrow> jsnum \<Rightarrow> bool" where
  "jsLess (Fin x) (Fin y) = (x < y)"
| "jsLess NaN b = False"
| "jsLess a NaN = False"
| "jsLess a NegInf = False"
| "jsLess PosInf b = False"
| "jsLess a b = True"

section \<open>Vectors and angles (HawkEyeVisualizer3D.tsx)\<close>

text \<open>
  \<^verbatim>\<open>type V3 = [number, number, number]\<close>. The coordinates of a joint are finite, since
  the viewer's tracks come from the parser, and are reals here: what is computed from
  coordinates alone is computed on reals, without rounding and overflow and with one
  zero. The time of a frame is a number of any kind, since the parser divides by a frame
  rate that may be 0, and what is computed with times uses the arithmetic above. A joint
  dictionary is the list of its properties in \<^verbatim>\<open>Object.keys\<close> order.
\<close>

type_synonym V3 = "real \<times> real \<times> real"

type_synonym jointMap = "(string \<times> V3) list"

type_synonym vframe = "(jsnum, jointMap) frame"

fun vx :: "V3 \<Rightarrow> real" where "vx (x, y, z) = x"

fun vy :: "V3 \<Rightarrow> real" where "vy (x, y, z) = y"

fun vz :: "V3 \<Rightarrow> real" where "vz (x, y, z) = z"

fun vsub :: "V3 \<Rightarrow> V3 \<Rightarrow> V3" where
  "vsub (a, b, c) (x, y, z) = (a - x, b - y, c - z)"

fun vadd :: "V3 \<Rightarrow> V3 \<Rightarrow> V3" where
  "vadd (a, b, c) (x, y, z) = (a + x, b + y, c + z)"

fun multiplyScalar :: "V3 \<Rightarrow> real \<Rightarrow> V3" where
  "multiplyScalar (x, y, z) s = (x * s, y * s, z * s)"

fun dot :: "V3 \<Rightarrow> V3 \<Rightarrow> real" where
  "dot (a, b, c) (x, y, z) = a * x + b * y + c * z"

definition lengthSq :: "V3 \<Rightarrow> real" where
  "lengthSq v = dot v v"

definition vlength :: "V3 \<Rightarrow> real" where
  "vlength v = sqrt (lengthSq v)"

text \<open>
  The methods of three.js's \<^verbatim>\<open>Vector3\<close> and \<^verbatim>\<open>MathUtils\<close>, a library the repository
  imports:
  \<^verbatim>\<open>normalize() { return this.divideScalar(this.length() || 1); }\<close>,
  \<^verbatim>\<open>angleTo(v)\<close>, which is \<open>\<pi>/2\<close> when a vector is zero and the arc cosine of the
  clamped cosine otherwise, \<^verbatim>\<open>distanceTo(v)\<close> and \<^verbatim>\<open>radToDeg(r)\<close>, \<open>r \<cdot> (180/\<pi>)\<close>.
\<close>

definition normalize :: "V3 \<Rightarrow> V3" where
  "normalize v = multiplyScalar v (1 / (if vlength v \<noteq> 0 then vlength v else 1))"

definition clamp :: "real \<Rightarrow> real \<Rightarrow> real \<Rightarrow> real" where
  "clamp x lo hi = max lo (min hi x)"

definition angleTo :: "V3 \<Rightarrow> V3 \<Rightarrow> real" where
  "angleTo a b =
     (let denominator = sqrt (lengthSq a * lengthSq b)
      in if denominator = 0 then pi / 2
         else arccos (clamp (dot a b / denominator) (- 1) 1))"

definition distanceTo :: "V3 \<Rightarrow> V3 \<Rightarrow> real" where
  "distanceTo a b = vlength (vsub a b)"

definition radToDeg :: "real \<Rightarrow> real" where
  "radToDeg r = r * (180 / pi)"

text \<open>
  \<^verbatim>\<open>Math.atan2(y, x)\<close>, the angle of the point \<open>(x, y)\<close> in \<open>(-\<pi>, \<pi>]\<close>, 0 at
  the origin. With one zero the model gives \<open>\<pi>\<close> on the negative x-axis, where the
  program gives \<open>\<pi>\<close> or \<open>-\<pi>\<close> with the sign of the zero \<open>y\<close>; no example below
  has its shoulder line there.
\<close>

definition atan2 :: "real \<Rightarrow> real \<Rightarrow> real" where
  "atan2 y x =
     (if 0 < x then arctan (y / x)
      else if x < 0 then (if 0 \<le> y then arctan (y / x) + pi else arctan (y / x) - pi)
      else if 0 < y then pi / 2
      else if y < 0 then - (pi / 2)
      else 0)"

text \<open>\<^verbatim>\<open>const HOME_BASE = new THREE.Vector3(-1, 0, 0);\<close>\<close>

definition HOME_BASE :: V3 where
  "HOME_BASE = (- 1, 0, 0)"

text \<open>\<^verbatim>\<open>const SMOOTH_ALPHA = 0.35;\<close>\<close>

definition SMOOTH_ALPHA :: real where
  "SMOOTH_ALPHA = 0.35"

text \<open>
  \<^verbatim>\<open>
  function wrap180(d: number) {
    if (!isFinite(d)) return d;
    while (d > 180) d -= 360;
    while (d < -180) d += 360;
    return d;
  }
  \<close>
  One function for each loop.
\<close>

function wrapDown :: "real \<Rightarrow> real" where
  "wrapDown d = (if d > 180 then wrapDown (d - 360) else d)"
  by pat_completeness auto
termination
proof (relation "measure (\<lambda>d. nat \<lceil>(d - 180) / 360\<rceil>)")
  show "wf (measure (\<lambda>d. nat \<lceil>(d - 180) / 360\<rceil>))"
    by simp
next
  fix d :: real
  assume "180 < d"
  then have pos: "0 < \<lceil>(d - 180) / 360\<rceil>"
    by (simp add: ceiling_less_iff less_ceiling_iff)
  have "(d - 360 - 180) / 360 = (d - 180) / 360 - 1"
    by (simp add: field_simps)
  then have "\<lceil>(d - 360 - 180) / 360\<rceil> = \<lceil>(d - 180) / 360\<rceil> - 1"
    by (simp only: ceiling_diff_one)
  with pos show "(d - 360, d) \<in> measure (\<lambda>d. nat \<lceil>(d - 180) / 360\<rceil>)"
    by simp
qed

function wrapUp :: "real \<Rightarrow> real" where
  "wrapUp d = (if d < - 180 then wrapUp (d + 360) else d)"
  by pat_completeness auto
termination
proof (relation "measure (\<lambda>d. nat \<lceil>(- 180 - d) / 360\<rceil>)")
  show "wf (measure (\<lambda>d. nat \<lceil>(- 180 - d) / 360\<rceil>))"
    by simp
next
  fix d :: real
  assume "d < - 180"
  then have pos: "0 < \<lceil>(- 180 - d) / 360\<rceil>"
    by (simp add: ceiling_less_iff less_ceiling_iff)
  have "(- 180 - (d + 360)) / 360 = (- 180 - d) / 360 - 1"
    by (simp add: field_simps)
  then have "\<lceil>(- 180 - (d + 360)) / 360\<rceil> = \<lceil>(- 180 - d) / 360\<rceil> - 1"
    by (simp only: ceiling_diff_one)
  with pos show "(d + 360, d) \<in> measure (\<lambda>d. nat \<lceil>(- 180 - d) / 360\<rceil>)"
    by simp
qed

declare wrapDown.simps [simp del] wrapUp.simps [simp del]

definition wrap180 :: "real \<Rightarrow> real" where
  "wrap180 d = wrapUp (wrapDown d)"

text \<open>
  \<^verbatim>\<open>
  function unwrapToPrev(newDeg: number, prevDeg: number) {
    let cand = newDeg;
    while (prevDeg - cand > 180) cand += 360;
    while (cand - prevDeg > 180) cand -= 360;
    return wrap180(cand);
  }
  \<close>
\<close>

function unwrapUp :: "real \<Rightarrow> real \<Rightarrow> real" where
  "unwrapUp prevDeg cand = (if prevDeg - cand > 180 then unwrapUp prevDeg (cand + 360) else cand)"
  by pat_completeness auto
termination
proof (relation "measure (\<lambda>(prevDeg, cand). nat \<lceil>(prevDeg - cand - 180) / 360\<rceil>)")
  show "wf (measure (\<lambda>(prevDeg, cand). nat \<lceil>(prevDeg - cand - 180) / 360\<rceil>))"
    by simp
next
  fix prevDeg cand :: real
  assume "180 < prevDeg - cand"
  then have pos: "0 < \<lceil>(prevDeg - cand - 180) / 360\<rceil>"
    by (simp add: ceiling_less_iff less_ceiling_iff)
  have "(prevDeg - (cand + 360) - 180) / 360 = (prevDeg - cand - 180) / 360 - 1"
    by (simp add: field_simps)
  then have "\<lceil>(prevDeg - (cand + 360) - 180) / 360\<rceil> = \<lceil>(prevDeg - cand - 180) / 360\<rceil> - 1"
    by (simp only: ceiling_diff_one)
  with pos show "((prevDeg, cand + 360), (prevDeg, cand))
      \<in> measure (\<lambda>(prevDeg, cand). nat \<lceil>(prevDeg - cand - 180) / 360\<rceil>)"
    by simp
qed

function unwrapDown :: "real \<Rightarrow> real \<Rightarrow> real" where
  "unwrapDown prevDeg cand = (if cand - prevDeg > 180 then unwrapDown prevDeg (cand - 360) else cand)"
  by pat_completeness auto
termination
proof (relation "measure (\<lambda>(prevDeg, cand). nat \<lceil>(cand - prevDeg - 180) / 360\<rceil>)")
  show "wf (measure (\<lambda>(prevDeg, cand). nat \<lceil>(cand - prevDeg - 180) / 360\<rceil>))"
    by simp
next
  fix prevDeg cand :: real
  assume "180 < cand - prevDeg"
  then have pos: "0 < \<lceil>(cand - prevDeg - 180) / 360\<rceil>"
    by (simp add: ceiling_less_iff less_ceiling_iff)
  have "(cand - 360 - prevDeg - 180) / 360 = (cand - prevDeg - 180) / 360 - 1"
    by (simp add: field_simps)
  then have "\<lceil>(cand - 360 - prevDeg - 180) / 360\<rceil> = \<lceil>(cand - prevDeg - 180) / 360\<rceil> - 1"
    by (simp only: ceiling_diff_one)
  with pos show "((prevDeg, cand - 360), (prevDeg, cand))
      \<in> measure (\<lambda>(prevDeg, cand). nat \<lceil>(cand - prevDeg - 180) / 360\<rceil>)"
    by simp
qed

declare unwrapUp.simps [simp del] unwrapDown.simps [simp del]

definition unwrapToPrev :: "real \<Rightarrow> real \<Rightarrow> real" where
  "unwrapToPrev newDeg prevDeg = wrap180 (unwrapDown prevDeg (unwrapUp prevDeg newDeg))"

text \<open>
  \<^verbatim>\<open>
  function yawDeg(ref: THREE.Vector3, v: THREE.Vector3) {
    const R = new THREE.Vector3(ref.x, ref.y, 0).normalize();
    const V = new THREE.Vector3(v.x, v.y, 0).normalize();
    const cross = R.x * V.y - R.y * V.x;
    const dot = R.dot(V);
    return THREE.MathUtils.radToDeg(Math.atan2(cross, dot));
  }
  \<close>
\<close>

definition yawDeg :: "V3 \<Rightarrow> V3 \<Rightarrow> real" where
  "yawDeg ref v =
     (let R = normalize (vx ref, vy ref, 0);
          V = normalize (vx v, vy v, 0);
          cross = vx R * vy V - vy R * vx V
      in radToDeg (atan2 cross (dot R V)))"

text \<open>
  \<^verbatim>\<open>x % m\<close> on numbers: the remainder of the division truncated towards zero.
\<close>

definition jsRem :: "real \<Rightarrow> real \<Rightarrow> real" where
  "jsRem x m = x - m * of_int (if 0 \<le> x / m then \<lfloor>x / m\<rfloor> else \<lceil>x / m\<rceil>)"

text \<open>
  \<^verbatim>\<open>
  function fold90(deg: number) {
    const d = Math.abs(deg % 360);
    const d180 = d > 180 ? 360 - d : d;
    return Math.min(d180, 180 - d180);
  }
  \<close>
\<close>

definition fold90 :: "real \<Rightarrow> real" where
  "fold90 deg =
     (let d = \<bar>jsRem deg 360\<bar>;
          d180 = (if d > 180 then 360 - d else d)
      in min d180 (180 - d180))"

section \<open>Joint lookup\<close>

definition isLetter :: "char \<Rightarrow> bool" where
  "isLetter c = (let n = (of_char c :: nat) in (65 \<le> n \<and> n \<le> 90) \<or> (97 \<le> n \<and> n \<le> 122))"

text \<open>\<^verbatim>\<open>k.replace(/[^a-z]/gi, "").toLowerCase()\<close>\<close>

definition normKey :: "string \<Rightarrow> string" where
  "normKey k = toLowerCase (filter isLetter k)"

text \<open>
  \<^verbatim>\<open>
  const get = (name: string): V3 | undefined => {
    const want = name.replace(/[^a-z]/gi, "").toLowerCase();
    for (const k of Object.keys(J)) if (k.replace(/[^a-z]/gi, "").toLowerCase() === want) return J[k];
    return undefined;
  };
  \<close>
  (\<^verbatim>\<open>getFrom\<close>, the copy in the series builder, is the same function of \<open>J\<close>.)
\<close>

fun getJoint :: "jointMap \<Rightarrow> string \<Rightarrow> V3 option" where
  "getJoint [] jname = None"
| "getJoint ((k, v) # J) jname = (if normKey k = normKey jname then Some v else getJoint J jname)"

text \<open>\<^verbatim>\<open>a || b\<close> on joints: a position is an array and always truthy.\<close>

fun orV :: "V3 option \<Rightarrow> V3 option \<Rightarrow> V3 option" where
  "orV (Some v) b = Some v"
| "orV None b = b"

text \<open>\<^verbatim>\<open>get(name) || J[alias]\<close>, the pattern of every key joint.\<close>

definition keyJoint :: "jointMap \<Rightarrow> string \<Rightarrow> string \<Rightarrow> V3 option" where
  "keyJoint J jname alias = orV (getJoint J jname) (map_of J alias)"

text \<open>\<^verbatim>\<open>J[a] || J[b] || ...\<close>\<close>

fun firstKey :: "jointMap \<Rightarrow> string list \<Rightarrow> V3 option" where
  "firstKey J [] = None"
| "firstKey J (a # as) = orV (map_of J a) (firstKey J as)"

text \<open>
  \<^verbatim>\<open>
  const lAn = get("lAnkle") || J["leftAnkle"] || J["lHeel"] || J["leftHeel"] || J["lBigToe"] || J["leftBigToe"];
  const rAn = get("rAnkle") || J["rightAnkle"] || J["rHeel"] || J["rightHeel"] || J["rBigToe"] || J["rightBigToe"];
  \<close>
\<close>

definition leftAnkle :: "jointMap \<Rightarrow> V3 option" where
  "leftAnkle J = orV (getJoint J ''lAnkle'')
     (firstKey J [''leftAnkle'', ''lHeel'', ''leftHeel'', ''lBigToe'', ''leftBigToe''])"

definition rightAnkle :: "jointMap \<Rightarrow> V3 option" where
  "rightAnkle J = orV (getJoint J ''rAnkle'')
     (firstKey J [''rightAnkle'', ''rHeel'', ''rightHeel'', ''rBigToe'', ''rightBigToe''])"

definition midpoint :: "V3 \<Rightarrow> V3 \<Rightarrow> V3" where
  "midpoint a b = ((vx a + vx b) / 2, (vy a + vy b) / 2, (vz a + vz b) / 2)"

text \<open>\<^verbatim>\<open>a && b ? f(a, b) : undefined\<close>\<close>

fun both :: "(V3 \<Rightarrow> V3 \<Rightarrow> 'a) \<Rightarrow> V3 option \<Rightarrow> V3 option \<Rightarrow> 'a option" where
  "both f (Some a) (Some b) = Some (f a b)"
| "both f a b = None"

text \<open>
  \<^verbatim>\<open>
  const pelvisRaw = get("midHip") || get("pelvis") || J["hipCenter"] || J["pelvisCenter"];
  const pelvis = pelvisRaw || (lHip && rHip ? [midpoint of lHip and rHip] : undefined);
  const chestRaw = get("chest") || J["midShoulder"] || J["upperChest"] || J["sternum"] || get("neck") || J["c7"];
  const chest = chestRaw || (lSh && rSh ? [midpoint of lSh and rSh] : undefined);
  const head = get("head") || get("nose") || J["topHead"];
  \<close>
\<close>

definition pelvisRaw :: "jointMap \<Rightarrow> V3 option" where
  "pelvisRaw J = orV (getJoint J ''midHip'') (orV (getJoint J ''pelvis'')
     (firstKey J [''hipCenter'', ''pelvisCenter'']))"

definition pelvisOf :: "jointMap \<Rightarrow> V3 option" where
  "pelvisOf J = orV (pelvisRaw J)
     (both midpoint (keyJoint J ''lHip'' ''leftHip'') (keyJoint J ''rHip'' ''rightHip''))"

definition chestRaw :: "jointMap \<Rightarrow> V3 option" where
  "chestRaw J = orV (getJoint J ''chest'') (orV (firstKey J [''midShoulder'', ''upperChest'', ''sternum''])
     (orV (getJoint J ''neck'') (map_of J ''c7'')))"

definition chestOf :: "jointMap \<Rightarrow> V3 option" where
  "chestOf J = orV (chestRaw J)
     (both midpoint (keyJoint J ''lShoulder'' ''leftShoulder'') (keyJoint J ''rShoulder'' ''rightShoulder''))"

definition headOf :: "jointMap \<Rightarrow> V3 option" where
  "headOf J = orV (getJoint J ''head'') (orV (getJoint J ''nose'') (map_of J ''topHead''))"

section \<open>The display smoother\<close>

text \<open>
  \<^verbatim>\<open>
  const frameJoints = useMemo(() => {
    const out: Record<string, V3> = {};
    const prev = prevJointMapRef.current;
    for (const [k, p] of Object.entries(rawJ as Record<string, V3>)) {
      const pv = prev[k];
      const cv = new THREE.Vector3(p[0], p[1], p[2]);
      if (pv) {
        pv.multiplyScalar(1 - SMOOTH_ALPHA).addScaledVector(cv, SMOOTH_ALPHA);
        out[k] = [pv.x, pv.y, pv.z];
      } else {
        prev[k] = cv.clone();
        out[k] = [cv.x, cv.y, cv.z];
      }
    }
    prevJointMapRef.current = Object.fromEntries(
      Object.entries(out).map(([k, v]) => [k, new THREE.Vector3(v[0], v[1], v[2])])
    );
    return out;
  }, [rawJ]);
  \<close>
  The loop carries the map \<open>prev\<close>, whose vectors it changes in place, and \<open>out\<close>.
  The hook returns \<open>out\<close> and leaves a copy of it in \<^verbatim>\<open>prevJointMapRef\<close>, or
  throws.
\<close>

definition blend :: "V3 \<Rightarrow> V3 \<Rightarrow> V3" where
  "blend pv cv = vadd (multiplyScalar pv (1 - SMOOTH_ALPHA)) (multiplyScalar cv SMOOTH_ALPHA)"

text \<open>
  \<open>prev\<close> is a plain object, and \<^verbatim>\<open>prev[k]\<close> reads a property of its own or else one
  that it inherits from \<^verbatim>\<open>Object.prototype\<close>. An inherited property is a function (or
  the prototype itself), so \<^verbatim>\<open>if (pv)\<close> holds and \<^verbatim>\<open>pv.multiplyScalar\<close>, which is not a
  function, throws a TypeError. Hence \<open>prev\<close>, which starts empty, never gets a
  property of its own with an inherited name.
\<close>

definition protoNames :: "string list" where
  "protoNames = [''constructor'', ''__defineGetter__'', ''__defineSetter__'', ''hasOwnProperty'',
                 ''__lookupGetter__'', ''__lookupSetter__'', ''isPrototypeOf'',
                 ''propertyIsEnumerable'', ''toString'', ''valueOf'', ''__proto__'',
                 ''toLocaleString'']"

fun smoothLoop :: "jointMap \<Rightarrow> jointMap \<Rightarrow> jointMap \<Rightarrow> jsError + jointMap" where
  "smoothLoop prev out [] = Inr out"
| "smoothLoop prev out ((k, p) # es) =
     (case map_of prev k of
        Some pv \<Rightarrow> smoothLoop (setProp prev k (blend pv p)) (setProp out k (blend pv p)) es
      | None \<Rightarrow>
         if k \<in> set protoNames then Inl TypeError
         else smoothLoop (setProp prev k p) (setProp out k p) es)"

definition frameJoints :: "jointMap \<Rightarrow> jointMap \<Rightarrow> jsError + jointMap \<times> jointMap" where
  "frameJoints prevJointMap rawJ =
     (case smoothLoop prevJointMap [] rawJ of
        Inl err \<Rightarrow> Inl err
      | Inr out \<Rightarrow> Inr (out, out))"

section \<open>The kinematics engine\<close>

text \<open>\<^verbatim>\<open>const homeVec = (flipHome ? HOME_BASE.clone().multiplyScalar(-1) : HOME_BASE.clone());\<close>\<close>

definition homeVec :: "bool \<Rightarrow> V3" where
  "homeVec flipHome = (if flipHome then multiplyScalar HOME_BASE (- 1) else HOME_BASE)"

text \<open>
  \<^verbatim>\<open>
  let trunkRotDeg: number | undefined = undefined;
  if (lSh && rSh) {
    const rShV = new THREE.Vector3(...rSh);
    const lShV = new THREE.Vector3(...lSh);
    const shoulderAxis = rShV.clone().sub(lShV);
    const raw = wrap180(yawDeg(homeVec, shoulderAxis));
    const prev = prevTrunkDegRef.current;
    const unwrapped = prev == null ? raw : unwrapToPrev(raw, prev);
    const smoothed = prev == null ? unwrapped : (0.7 * prev + 0.3 * unwrapped);
    prevTrunkDegRef.current = smoothed;
    trunkRotDeg = wrap180(smoothed);
  }
  \<close>
  The step returns \<open>trunkRotDeg\<close> and the new content of \<^verbatim>\<open>prevTrunkDegRef\<close>.
\<close>

definition rawTrunkYaw :: "bool \<Rightarrow> V3 \<Rightarrow> V3 \<Rightarrow> real" where
  "rawTrunkYaw flipHome lSh rSh = wrap180 (yawDeg (homeVec flipHome) (vsub rSh lSh))"

text \<open>The value \<open>raw\<close> under the guard \<^verbatim>\<open>if (lSh && rSh)\<close>.\<close>

definition shoulderYaw :: "bool \<Rightarrow> jointMap \<Rightarrow> real option" where
  "shoulderYaw flipHome J =
     both (rawTrunkYaw flipHome) (keyJoint J ''lShoulder'' ''leftShoulder'')
       (keyJoint J ''rShoulder'' ''rightShoulder'')"

definition metricsTrunk :: "bool \<Rightarrow> real option \<Rightarrow> jointMap \<Rightarrow> real option \<times> real option" where
  "metricsTrunk flipHome prevTrunkDeg J =
     (case shoulderYaw flipHome J of
        None \<Rightarrow> (None, prevTrunkDeg)
      | Some raw \<Rightarrow>
         (let unwrapped = (case prevTrunkDeg of None \<Rightarrow> raw | Some prev \<Rightarrow> unwrapToPrev raw prev);
              smoothed = (case prevTrunkDeg of None \<Rightarrow> unwrapped
                          | Some prev \<Rightarrow> 0.7 * prev + 0.3 * unwrapped)
          in (Some (wrap180 smoothed), Some smoothed)))"

text \<open>
  \<^verbatim>\<open>
  const T = (() => {
    if (pelvis && chest) {
      const t = new THREE.Vector3(chest[0]-pelvis[0], chest[1]-pelvis[1], chest[2]-pelvis[2]);
      if (t.lengthSq() > 1e-10) return t.normalize();
    }
    return new THREE.Vector3(0,1,0);
  })();
  \<close>
\<close>

definition trunkUp :: "jointMap \<Rightarrow> V3" where
  "trunkUp J =
     (case both (\<lambda>pelvis chest. vsub chest pelvis) (pelvisOf J) (chestOf J) of
        Some t \<Rightarrow> if lengthSq t > 1 / 10 ^ 10 then normalize t else (0, 1, 0)
      | None \<Rightarrow> (0, 1, 0))"

text \<open>
  \<^verbatim>\<open>
  const rUpper = (rSh && rEl) ? new THREE.Vector3(rEl[0] - rSh[0], ...) : null;
  if (rUpper && rUpper.lengthSq() > 1e-10)
    rAbd = fold90(THREE.MathUtils.radToDeg(rUpper.clone().normalize().angleTo(T)));
  \<close>
\<close>

definition abduction :: "V3 \<Rightarrow> V3 option \<Rightarrow> V3 option \<Rightarrow> real option" where
  "abduction T sh el =
     (case both (\<lambda>sh el. vsub el sh) sh el of
        Some upper \<Rightarrow>
          if lengthSq upper > 1 / 10 ^ 10 then Some (fold90 (radToDeg (angleTo (normalize upper) T)))
          else None
      | None \<Rightarrow> None)"

text \<open>
  \<^verbatim>\<open>
  function kneeFlex(hip?: V3, knee?: V3, ankle?: V3) {
    if (!hip || !knee || !ankle) return undefined;
    const t = new THREE.Vector3(hip[0] - knee[0], hip[1] - knee[1], hip[2] - knee[2]).normalize();
    const s = new THREE.Vector3(ankle[0] - knee[0], ankle[1] - knee[1], ankle[2] - knee[2]).normalize();
    return THREE.MathUtils.radToDeg(t.angleTo(s));
  }
  \<close>
  \<^verbatim>\<open>elbowFlex(shoulder, elbow, wrist)\<close> has the same body.
\<close>

fun kneeFlex :: "V3 option \<Rightarrow> V3 option \<Rightarrow> V3 option \<Rightarrow> real option" where
  "kneeFlex (Some hip) (Some knee) (Some ankle) =
     Some (radToDeg (angleTo (normalize (vsub hip knee)) (normalize (vsub ankle knee))))"
| "kneeFlex hip knee ankle = None"

fun elbowFlex :: "V3 option \<Rightarrow> V3 option \<Rightarrow> V3 option \<Rightarrow> real option" where
  "elbowFlex (Some shoulder) (Some elbow) (Some wrist) =
     Some (radToDeg (angleTo (normalize (vsub shoulder elbow)) (normalize (vsub wrist elbow))))"
| "elbowFlex shoulder elbow wrist = None"

text \<open>
  \<^verbatim>\<open>pickJoint(Jmap, names)\<close>: the first of the names that holds a triple of finite numbers,
  which every stored joint is.
\<close>

definition pickJoint :: "jointMap \<Rightarrow> string list \<Rightarrow> V3 option" where
  "pickJoint J names = firstKey J names"

text \<open>
  \<^verbatim>\<open>
  let H = 1.0;
  if (head && (lAn || rAn)) {
    const hv = new THREE.Vector3(...head);
    const av = lAn ? new THREE.Vector3(...lAn) : new THREE.Vector3(...(rAn as V3));
    H = hv.distanceTo(av);
  }
  if (typeof bodyHeight === "number" && bodyHeight > 0) H = bodyHeight;
  \<close>
  The state \<open>bodyHeight\<close> is a number or the empty string, here \<open>None\<close>.
\<close>

definition heightOf :: "real option \<Rightarrow> jointMap \<Rightarrow> real" where
  "heightOf bodyHeight J =
     (let H0 = (case (headOf J, orV (leftAnkle J) (rightAnkle J)) of
                  (Some head, Some av) \<Rightarrow> distanceTo head av
                | _ \<Rightarrow> 1)
      in case bodyHeight of
           Some h \<Rightarrow> if h > 0 then h else H0
         | None \<Rightarrow> H0)"

text \<open>
  \<^verbatim>\<open>
  const trunkCoG = (() => {
    const pts = [pelvis, chest, rSh, lSh].filter(Boolean) as V3[];
    if (!pts.length) return undefined;
    const vs = pts.map(p => new THREE.Vector3(p[0], p[1], p[2]));
    return vs.reduce((s, v) => s.add(v), new THREE.Vector3()).multiplyScalar(1 / vs.length);
  })();
  \<close>
\<close>

definition trunkCoG :: "jointMap \<Rightarrow> V3 option" where
  "trunkCoG J =
     (let pts = List.map_filter id
            [pelvisOf J, chestOf J, keyJoint J ''rShoulder'' ''rightShoulder'',
             keyJoint J ''lShoulder'' ''leftShoulder'']
      in if pts = [] then None
         else Some (multiplyScalar (foldl vadd (0, 0, 0) pts) (1 / real (length pts))))"

text \<open>
  The values the hook \<^verbatim>\<open>metrics\<close> returns. The debug record \<^verbatim>\<open>dbg\<close>, and the axes
  \<open>R\<close> and \<open>F\<close> that only it shows, are left out.
\<close>

record metricsOut =
  trunkRotDeg :: "real option"
  hipRotDeg :: "real option"
  hipMinusTrunk :: "real option"
  rAbd :: "real option"
  lAbd :: "real option"
  rKneeFlex :: "real option"
  lKneeFlex :: "real option"
  rElbowFlex :: "real option"
  lElbowFlex :: "real option"
  stride :: "real option"
  stridePct :: "real option"
  linDispHome :: "real option"

text \<open>
  The body of \<^verbatim>\<open>metrics\<close> past its guard \<^verbatim>\<open>if (!frames.length) return null\<close>, on the
  joints \<open>J\<close> that \<^verbatim>\<open>frameJoints\<close> gives. It returns the metrics and the new content of
  \<^verbatim>\<open>prevTrunkDegRef\<close>. The source has no \<^verbatim>\<open>throw\<close> and reads a joint's coordinates only
  after testing the joint, so no branch of the model is an error.
\<close>

definition metrics :: "real option \<Rightarrow> bool \<Rightarrow> real option \<Rightarrow> jointMap \<Rightarrow> metricsOut \<times> real option" where
  "metrics bodyHeight flipHome prevTrunkDeg J =
     (let lSh = keyJoint J ''lShoulder'' ''leftShoulder'';
          rSh = keyJoint J ''rShoulder'' ''rightShoulder'';
          lEl = keyJoint J ''lElbow'' ''leftElbow'';
          rEl = keyJoint J ''rElbow'' ''rightElbow'';
          lHip = keyJoint J ''lHip'' ''leftHip'';
          rHip = keyJoint J ''rHip'' ''rightHip'';
          lKn = keyJoint J ''lKnee'' ''leftKnee'';
          rKn = keyJoint J ''rKnee'' ''rightKnee'';
          lAn = leftAnkle J;
          rAn = rightAnkle J;
          H = heightOf bodyHeight J;
          strideV = both distanceTo lAn rAn;
          stridePctV = (case strideV of
                          Some st \<Rightarrow> if st \<noteq> 0 \<and> H \<noteq> 0 then Some (st / H * 100) else None
                        | None \<Rightarrow> None);
          hipRot = both (\<lambda>l r. yawDeg (homeVec flipHome) (vsub r l)) lHip rHip;
          T = trunkUp J;
          trunk = metricsTrunk flipHome prevTrunkDeg J;
          hipMinus = (case (hipRot, fst trunk) of
                        (Some h, Some t) \<Rightarrow> Some (wrap180 (h - t))
                      | _ \<Rightarrow> None);
          hipsCoG = both midpoint lHip rHip;
          linDisp = (case (trunkCoG J, hipsCoG) of
                       (Some tc, Some hc) \<Rightarrow> Some (vx hc - vx tc)
                     | _ \<Rightarrow> None)
      in (\<lparr> trunkRotDeg = fst trunk,
            hipRotDeg = hipRot,
            hipMinusTrunk = hipMinus,
            rAbd = abduction T rSh rEl,
            lAbd = abduction T lSh lEl,
            rKneeFlex = kneeFlex rHip rKn rAn,
            lKneeFlex = kneeFlex lHip lKn lAn,
            rElbowFlex = elbowFlex (pickJoint J [''rShoulder'', ''rightShoulder''])
                           (pickJoint J [''rElbow'', ''rightElbow''])
                           (pickJoint J [''rWrist'', ''rightWrist'']),
            lElbowFlex = elbowFlex (pickJoint J [''lShoulder'', ''leftShoulder''])
                           (pickJoint J [''lElbow'', ''leftElbow''])
                           (pickJoint J [''lWrist'', ''leftWrist'']),
            stride = strideV,
            stridePct = stridePctV,
            linDispHome = linDisp \<rparr>, snd trunk))"

section \<open>The biomechanics series\<close>





fun engineTrunkRawLoop :: "bool \<Rightarrow> real option \<Rightarrow> jointMap list \<Rightarrow> real option list" where
  "engineTrunkRawLoop flipHome prevTrunkDeg [] = []"
| "engineTrunkRawLoop flipHome prevTrunkDeg (J # rest) =
     (let m = metricsTrunk flipHome prevTrunkDeg J
      in fst m # engineTrunkRawLoop flipHome (snd m) rest)"

definition engineTrunkRaw :: "bool \<Rightarrow> vframe list \<Rightarrow> real option list" where
  "engineTrunkRaw flipHome fs = engineTrunkRawLoop flipHome None (map joints fs)"

section \<open>Hand detection\<close>

datatype hand = HandR | HandL | HandUnknown

text \<open>\<^verbatim>\<open>a["rWrist"] || a["rightWrist"]\<close> and \<^verbatim>\<open>a["lWrist"] || a["leftWrist"]\<close>\<close>

definition wristR :: "jointMap \<Rightarrow> V3 option" where
  "wristR J = firstKey J [''rWrist'', ''rightWrist'']"

definition wristL :: "jointMap \<Rightarrow> V3 option" where
  "wristL J = firstKey J [''lWrist'', ''leftWrist'']"

text \<open>
  \<^verbatim>\<open>
  const n = frames.length;
  const start = Math.floor(n * 0.75);
  let rx = 0, lx = 0, rc = 0, lc = 0;
  for (let i = start + 1; i < n; i++) {
    const a = frames[i - 1].joints; const b = frames[i].joints;
    const r0 = a["rWrist"] || a["rightWrist"];  const r1 = b["rWrist"] || b["rightWrist"];
    const l0 = a["lWrist"] || a["leftWrist"];   const l1 = b["lWrist"] || b["leftWrist"];
    if (r0 && r1) { rx += (r1[0] - r0[0]); rc++; }
    if (l0 && l1) { lx += (l1[0] - l0[0]); lc++; }
  }
  \<close>
  The loop state is \<open>(rx, lx, rc, lc)\<close>; every index it reads is within the track.
\<close>

definition wristStep :: "vframe list \<Rightarrow> real \<times> real \<times> nat \<times> nat \<Rightarrow> nat \<Rightarrow> real \<times> real \<times> nat \<times> nat" where
  "wristStep fs acc i =
     (case acc of (rx, lx, rc, lc) \<Rightarrow>
        (let a = joints (fs ! (i - 1));
             b = joints (fs ! i);
             r = both (\<lambda>r0 r1. vx r1 - vx r0) (wristR a) (wristR b);
             l = both (\<lambda>l0 l1. vx l1 - vx l0) (wristL a) (wristL b)
         in (case r of Some d \<Rightarrow> rx + d | None \<Rightarrow> rx,
             case l of Some d \<Rightarrow> lx + d | None \<Rightarrow> lx,
             case r of Some d \<Rightarrow> rc + 1 | None \<Rightarrow> rc,
             case l of Some d \<Rightarrow> lc + 1 | None \<Rightarrow> lc)))"

definition wristSums :: "vframe list \<Rightarrow> real \<times> real \<times> nat \<times> nat" where
  "wristSums fs =
     foldl (wristStep fs) (0, 0, 0, 0) [nat \<lfloor>real (length fs) * 0.75\<rfloor> + 1 ..< length fs]"

text \<open>\<^verbatim>\<open>const rdx = rc ? rx / rc : 0;\<close>\<close>

definition meanStep :: "real \<Rightarrow> nat \<Rightarrow> real" where
  "meanStep x c = (if c \<noteq> 0 then x / real c else 0)"

text \<open>
  \<^verbatim>\<open>
  function detectHandedness(frames): "R" | "L" | "?" {
    if (!frames.length) return "?";
    ...
    const rdx = rc ? rx / rc : 0;
    const ldx = lc ? lx / lc : 0;
    if (rdx < ldx) return "R";
    if (ldx < rdx) return "L";
    return "?";
  }
  \<close>
\<close>

definition detectHandedness :: "vframe list \<Rightarrow> hand" where
  "detectHandedness fs =
     (if fs = [] then HandUnknown
      else case wristSums fs of (rx, lx, rc, lc) \<Rightarrow>
        (let rdx = meanStep rx rc; ldx = meanStep lx lc
         in if rdx < ldx then HandR else if ldx < rdx then HandL else HandUnknown))"

text \<open>Exchanging the two wrists of a track, under both spellings of their names.\<close>

definition swapKey :: "string \<Rightarrow> string" where
  "swapKey k =
     (if k = ''rWrist'' then ''lWrist'' else if k = ''lWrist'' then ''rWrist''
      else if k = ''rightWrist'' then ''leftWrist'' else if k = ''leftWrist'' then ''rightWrist''
      else k)"

definition swapJoints :: "jointMap \<Rightarrow> jointMap" where
  "swapJoints J = map (\<lambda>(k, v). (swapKey k, v)) J"

definition swapWrists :: "vframe list \<Rightarrow> vframe list" where
  "swapWrists fs = map (\<lambda>f. f\<lparr> joints := swapJoints (joints f) \<rparr>) fs"

fun flipHand :: "hand \<Rightarrow> hand" where
  "flipHand HandR = HandL"
| "flipHand HandL = HandR"
| "flipHand HandUnknown = HandUnknown"

text \<open>
  A track from its joint dictionaries, with the times \<^verbatim>\<open>i / fps\<close> that the parser
  gives its frames; \<open>framesOf\<close> samples at 300 frames per second.
\<close>

definition framesAt :: "real \<Rightarrow> jointMap list \<Rightarrow> vframe list" where
  "framesAt rate Js = map (\<lambda>(i, J). \<lparr> time = indexOver i rate, joints = J \<rparr>) (enumerate 0 Js)"

definition framesOf :: "jointMap list \<Rightarrow> vframe list" where
  "framesOf Js = framesAt 300 Js"

text \<open>
  Nine frames. In the last quarter the right wrist is seen in frames 6, 7 and 8 and moves
  by -3 in two steps; the left wrist is seen in frames 7 and 8 and moves by -2 in one.
\<close>

definition trackUneven :: "vframe list" where
  "trackUneven = framesOf (replicate 6 [] @
     [[(''rWrist'', (0, 0, 0))],
      [(''rWrist'', (- 3 / 2, 0, 0)), (''lWrist'', (0, 0, 0))],
      [(''rWrist'', (- 3, 0, 0)), (''lWrist'', (- 2, 0, 0))]])"

text \<open>The loop state with the two wrists exchanged.\<close>

fun swapAcc :: "real \<times> real \<times> nat \<times> nat \<Rightarrow> real \<times> real \<times> nat \<times> nat" where
  "swapAcc (rx, lx, rc, lc) = (lx, rx, lc, rc)"

text \<open>
  Five frames: both wrists are seen in the last two, the right one moves by -2 and the
  left one by -1.
\<close>

definition trackRight :: "vframe list" where
  "trackRight = framesOf (replicate 3 [] @
     [[(''rWrist'', (0, 0, 0)), (''lWrist'', (0, 0, 0))],
      [(''rWrist'', (- 2, 0, 0)), (''lWrist'', (- 1, 0, 0))]])"

section \<open>Event detection\<close>















text \<open>
  \<^verbatim>\<open>
  let bestIdx: number | undefined;
  let bestScore = Infinity;
  for (let i = 2; i < Y.length - 2; i++) {
    const localMin = Y[i] <= Y[i - 1] && Y[i] <= Y[i + 1];
    if (!localMin) continue;
    const vy0 = Math.abs(Vy[i]);
    const speedDrop = (Vh[i - 1] - Vh[i]);
    const yawStable = dYaw[i];
    const score = (vy0 * 4.0) + (-speedDrop * 2.0) + (yawStable * 1.5) + (Y[i] * 0.2);
    if (score < bestScore) { bestScore = score; bestIdx = i; }
  }
  return bestIdx;
  \<close>
  The loop state is \<open>(bestIdx, bestScore)\<close>, with \<open>None\<close> for \<^verbatim>\<open>undefined\<close>.
\<close>

definition localMin :: "real list \<Rightarrow> nat \<Rightarrow> bool" where
  "localMin Y i \<longleftrightarrow> Y ! i \<le> Y ! (i - 1) \<and> Y ! i \<le> Y ! (i + 1)"

definition strikeScore :: "real list \<Rightarrow> jsnum list \<Rightarrow> jsnum list \<Rightarrow> jsnum list \<Rightarrow> nat \<Rightarrow> jsnum" where
  "strikeScore Y Vy Vh dYaw i =
     jsAdd (jsAdd (jsAdd (jsMul (jsAbs (Vy ! i)) (Fin 4))
                         (jsMul (jsNeg (jsSub (Vh ! (i - 1)) (Vh ! i))) (Fin 2)))
                  (jsMul (dYaw ! i) (Fin 1.5)))
           (Fin (Y ! i * 0.2))"

definition strikeStep :: "real list \<Rightarrow> jsnum list \<Rightarrow> jsnum list \<Rightarrow> jsnum list \<Rightarrow> nat option \<times> jsnum \<Rightarrow> nat \<Rightarrow> nat option \<times> jsnum" where
  "strikeStep Y Vy Vh dYaw st i =
     (if localMin Y i
      then (let score = strikeScore Y Vy Vh dYaw i
            in if jsLess score (snd st) then (Some i, score) else st)
      else st)"
















section \<open>Frames with and without the left hip\<close>

text \<open>
  The engine reads the left hip as \<^verbatim>\<open>get("lHip") || J["leftHip"]\<close>. Two joint
  dictionaries are the same but for the left hip when every lookup, by \<^verbatim>\<open>get\<close> or by
  key, of a name that does not normalize to \<open>lhip\<close> or \<open>lefthip\<close> gives the same joint.
\<close>

definition leftHipKey :: "string \<Rightarrow> bool" where
  "leftHipKey k \<longleftrightarrow> normKey k = ''lhip'' \<or> normKey k = ''lefthip''"

definition sameButLeftHip :: "jointMap \<Rightarrow> jointMap \<Rightarrow> bool" where
  "sameButLeftHip J J' \<longleftrightarrow>
     (\<forall>k. \<not> leftHipKey k \<longrightarrow> getJoint J' k = getJoint J k \<and> map_of J' k = map_of J k)"

text \<open>A frame with joints of the right side and the chest, and no pelvis of its own.\<close>

definition rightSide :: "jointMap" where
  "rightSide = [(''chest'', (1, 0, 0)), (''rHip'', (0, 0, 0)), (''rShoulder'', (0, 0, 0)),
                (''rElbow'', (1, 0, 0))]"


text \<open>
  Sample tracks of two frames, with the left shoulder at the origin. In \<open>trackTurn\<close>
  the shoulder line turns from one side of the line to home plate to the other (raw
  yaw 90 and then -90 degrees); in \<open>trackCross\<close> the raw yaw goes from 135 to -90
  degrees, across the cut at 180.
\<close>

definition shoulders :: "V3 \<Rightarrow> jointMap" where
  "shoulders r = [(''lShoulder'', (0, 0, 0)), (''rShoulder'', r)]"


definition trackCross :: "vframe list" where
  "trackCross = framesOf [shoulders (1, - 1, 0), shoulders (0, 1, 0)]"

text \<open>
  A document with two people: a pitcher with one frame, in which only the right wrist is
  a triple of finite numbers, and a batter without frames.
\<close>

definition sampleDoc :: jsval where
  "sampleDoc =
     JObj [(''samples'', JObj [(''people'', JArr
       [JObj [(''role'', JStr ''Pitcher''),
              (''joints'', JArr [JObj [(''rWrist'', JArr [JNum (Fin 1), JNum (Fin 2), JNum (Fin 3)]),
                                      (''lWrist'', JArr [JNum NaN, JNum (Fin 2), JNum (Fin 3)]),
                                      (''head'', JArr [JNum (Fin 1), JNum (Fin 2)])]])],
        JObj [(''role'', JStr ''Batter''), (''joints'', JArr [])]])])]"

text \<open>What the builder lets through: arrays of three finite numbers.\<close>

definition finiteTriples :: "(string \<times> jsval list) list \<Rightarrow> bool" where
  "finiteTriples js \<longleftrightarrow> (\<forall>(k, v) \<in> set js. length v = 3 \<and> (\<forall>x \<in> set v. \<exists>r. x = JNum (Fin r)))"

section \<open>Facts about strings\<close>

lemma startsWith_prefix: "startsWith s p \<longleftrightarrow> prefix p s"
  by (induction s p rule: startsWith.induct) auto

lemma strIncludes_sublist: "strIncludes s sub \<longleftrightarrow> sublist sub s"
proof (induction s)
  case Nil
  show ?case by auto
next
  case (Cons c cs)
  then show ?case
    by (simp add: startsWith_prefix sublist_Cons_right)
qed

section \<open>Role normalization\<close>

text \<open>
  C1 (as amended). For every raw role label given as text, normalizeRole returns
  \<open>pitcher\<close> when the lowercased label contains "pitch", \<open>hitter\<close> when it
  does not and contains "bat" or "hit", \<open>unknown\<close> when the label is empty, and
  in every other case the lowercased label itself.
\<close>

theorem normalizeRole_text:
  "normalizeRole H (JStr s) =
     (if sublist ''pitch'' (toLowerCase s) then ''pitcher''
      else if sublist ''bat'' (toLowerCase s) \<or> sublist ''hit'' (toLowerCase s) then ''hitter''
      else if s = [] then ''unknown'' else toLowerCase s)"
  by (simp add: normalizeRole_def orElse_def strIncludes_sublist toLowerCase_def)

theorem normalizeRole_text_witness:
  "sublist ''pitch'' (toLowerCase ''Pitcher'') \<and>
   normalizeRole plainHost (JStr ''Pitcher'') = ''pitcher''"
proof -
  have low: "toLowerCase ''Pitcher'' = ''pitcher''"
    by code_simp
  have sub: "sublist ''pitch'' ''pitcher''"
    by code_simp
  show ?thesis
    using normalizeRole_text [of plainHost "''Pitcher''"] low sub by simp
qed

text \<open>
  C1 as stated fails: the label "Catcher" matches none of the three substrings and is
  non-empty, and its role is \<open>catcher\<close>, not \<open>unknown\<close>.
\<close>

theorem normalizeRole_catcher_counterexample:
  "normalizeRole plainHost (JStr ''Catcher'') = ''catcher'' \<and>
   normalizeRole plainHost (JStr ''Catcher'') \<noteq> ''unknown''"
  by code_simp

section \<open>The parser's output\<close>

lemma parsePeople_frames: "\<forall>t \<in> set (parsePeople H doc people). frames t \<noteq> []"
  by (induction people) (auto simp: Let_def)

lemma parse_sampleDoc:
  "parseHawkEyeJson plainHost sampleDoc =
     [\<lparr> role = ''pitcher'', name = JUndefined, personId = JUndefined, fps = 300,
        frames = [\<lparr> time = Fin 0,
                    joints = [(''rWrist'', [JNum (Fin 1), JNum (Fin 2), JNum (Fin 3)])] \<rparr>] \<rparr>]"
  by code_simp

text \<open>
  C6. Every track that parseHawkEyeJson returns has a non-empty \<open>frames\<close> array: a
  person whose joint array gives no frame is skipped.
\<close>

theorem parseHawkEyeJson_frames_nonempty:
  "\<forall>t \<in> set (parseHawkEyeJson H doc). frames t \<noteq> []"
  by (auto simp: parseHawkEyeJson_def parsePeople_frames split: jsval.splits)

theorem parseHawkEyeJson_frames_nonempty_witness:
  "length (parseHawkEyeJson plainHost sampleDoc) = 1 \<and>
   frames (hd (parseHawkEyeJson plainHost sampleDoc)) \<noteq> []"
proof -
  have "hd (parseHawkEyeJson plainHost sampleDoc) \<in> set (parseHawkEyeJson plainHost sampleDoc)"
    by (simp add: parse_sampleDoc)
  then show ?thesis
    using parseHawkEyeJson_frames_nonempty [of plainHost sampleDoc]
    by (simp add: parse_sampleDoc)
qed

lemma isFiniteNumber_iff: "isFiniteNumber x \<longleftrightarrow> (\<exists>r. x = JNum (Fin r))"
  by (cases x rule: isFiniteNumber.cases) (auto elim: isFinite.elims)

lemma set_setProp: "set (setProp out k v) \<subseteq> insert (k, v) (set out)"
  by (induction out k v rule: setProp.induct) auto

lemma collectTriples_all:
  assumes "\<forall>(k, v) \<in> set out. P v"
    and "\<And>v. length v = 3 \<Longrightarrow> list_all isFiniteNumber v \<Longrightarrow> P [v ! 0, v ! 1, v ! 2]"
  shows "\<forall>(k, v) \<in> set (collectTriples out es). P v"
  using assms
proof (induction out es rule: collectTriples.induct)
  case (2 out k v es)
  show ?case
  proof (cases "length v = 3 \<and> list_all isFiniteNumber v")
    case True
    have "\<forall>(k, v) \<in> set (setProp out k [v ! 0, v ! 1, v ! 2]). P v"
      using set_setProp [of out k "[v ! 0, v ! 1, v ! 2]"] "2.prems" True by blast
    with 2 True show ?thesis by simp
  next
    case False
    with 2 show ?thesis by auto
  qed
qed simp_all

lemma finite_triple:
  assumes "length v = 3" and "list_all isFiniteNumber v"
  shows "length [v ! 0, v ! 1, v ! 2] = 3 \<and> (\<forall>x \<in> set [v ! 0, v ! 1, v ! 2]. \<exists>r. x = JNum (Fin r))"
proof -
  have "\<forall>i < 3. isFiniteNumber (v ! i)"
    using assms by (simp add: list_all_length)
  then have "isFiniteNumber (v ! 0)" "isFiniteNumber (v ! 1)" "isFiniteNumber (v ! 2)"
    by simp_all
  then show ?thesis
    by (simp add: isFiniteNumber_iff)
qed

lemma buildFrame_joints: "finiteTriples (joints (buildFrame rate iJ))"
  unfolding buildFrame_def finiteTriples_def
  using collectTriples_all [where out = "[]" and es = "entries (snd iJ)"
      and P = "\<lambda>v. length v = 3 \<and> (\<forall>x \<in> set v. \<exists>r. x = JNum (Fin r))"] finite_triple
  by simp

lemma buildFramesFromPerson_joints:
  "f \<in> set (buildFramesFromPerson person rate) \<Longrightarrow> finiteTriples (joints f)"
  by (cases "getProp person ''joints''")
    (auto simp: buildFramesFromPerson_def buildFrame_joints)

lemma parsePeople_joints:
  "t \<in> set (parsePeople H doc people) \<Longrightarrow> f \<in> set (frames t) \<Longrightarrow> finiteTriples (joints f)"
proof (induction people)
  case Nil
  then show ?case by simp
next
  case (Cons person people)
  show ?case
  proof (cases "buildFramesFromPerson person (extractFPS H doc person) = []")
    case True
    with Cons show ?thesis by (simp add: Let_def)
  next
    case False
    with Cons.prems have "t \<in> set (parsePeople H doc people) \<or>
        frames t = buildFramesFromPerson person (extractFPS H doc person)"
      by (auto simp: Let_def)
    then show ?thesis
      using Cons.IH Cons.prems(2) buildFramesFromPerson_joints by auto
  qed
qed

text \<open>
  C10. Every joint value stored in a frame of a track that parseHawkEyeJson returns is an
  array of three elements, each a finite number: NaN, the infinities and malformed
  tuples do not pass the frame builder.
\<close>

theorem parseHawkEyeJson_joints_finite:
  "\<forall>t \<in> set (parseHawkEyeJson H doc). \<forall>f \<in> set (frames t). \<forall>(k, v) \<in> set (joints f).
     length v = 3 \<and> (\<forall>x \<in> set v. \<exists>r. x = JNum (Fin r))"
proof (rule ballI, rule ballI)
  fix t f
  assume t: "t \<in> set (parseHawkEyeJson H doc)" and f: "f \<in> set (frames t)"
  from t obtain people where "t \<in> set (parsePeople H doc people)"
    by (auto simp: parseHawkEyeJson_def split: jsval.splits)
  with f have "finiteTriples (joints f)"
    by (rule parsePeople_joints [rotated])
  then show "\<forall>(k, v) \<in> set (joints f). length v = 3 \<and> (\<forall>x \<in> set v. \<exists>r. x = JNum (Fin r))"
    by (simp add: finiteTriples_def)
qed

theorem parseHawkEyeJson_joints_finite_witness:
  "map joints (frames (hd (parseHawkEyeJson plainHost sampleDoc))) =
     [[(''rWrist'', [JNum (Fin 1), JNum (Fin 2), JNum (Fin 3)])]] \<and>
   list_all (\<lambda>f. list_all (\<lambda>kv. length (snd kv) = 3 \<and> list_all isFiniteNumber (snd kv)) (joints f))
     (frames (hd (parseHawkEyeJson plainHost sampleDoc)))"
  using parseHawkEyeJson_joints_finite [of plainHost sampleDoc]
  by (simp add: parse_sampleDoc)

section \<open>Wrapping and unwrapping angles\<close>


lemma wrapDown_id: "d \<le> 180 \<Longrightarrow> wrapDown d = d"
  by (subst wrapDown.simps) simp



lemma wrapUp_id: "- 180 \<le> d \<Longrightarrow> wrapUp d = d"
  by (subst wrapUp.simps) simp


lemma wrap180_id: "- 180 \<le> d \<Longrightarrow> d \<le> 180 \<Longrightarrow> wrap180 d = d"
  by (simp add: wrap180_def wrapDown_id wrapUp_id)



lemmas angle_loops = wrap180_def unwrapToPrev_def wrapDown.simps wrapUp.simps
  unwrapUp.simps unwrapDown.simps

section \<open>Yaw of sample shoulder lines\<close>

lemma normalize_x: "normalize (x, 0, 0) = (sgn x, 0, 0)"
  by (simp add: normalize_def vlength_def lengthSq_def sgn_real_def)

lemma normalize_y: "normalize (0, y, 0) = (0, sgn y, 0)"
  by (simp add: normalize_def vlength_def lengthSq_def sgn_real_def)

lemma normalize_diag: "normalize (1, - 1, 0) = (1 / sqrt 2, - (1 / sqrt 2), 0)"
  by (simp add: normalize_def vlength_def lengthSq_def)

lemma yawDeg_y: "yawDeg HOME_BASE (0, y, z) = (if y > 0 then - 90 else if y < 0 then 90 else 0)"
  by (simp add: yawDeg_def HOME_BASE_def normalize_x normalize_y atan2_def radToDeg_def Let_def
      sgn_real_def)

lemma yawDeg_diag: "yawDeg HOME_BASE (1, - 1, z) = 135"
  by (simp add: yawDeg_def HOME_BASE_def normalize_x normalize_diag atan2_def radToDeg_def Let_def
      arctan_minus arctan_one)

lemma keyJoint_shoulders:
  "keyJoint (shoulders r) ''lShoulder'' ''leftShoulder'' = Some (0, 0, 0)"
  "keyJoint (shoulders r) ''rShoulder'' ''rightShoulder'' = Some r"
  by (simp_all add: shoulders_def keyJoint_def normKey_def isLetter_def toLowerCase_def lowerChar_def)

lemma shoulderYaw_y:
  "shoulderYaw False (shoulders (0, y, z)) = Some (if y > 0 then - 90 else if y < 0 then 90 else 0)"
  by (simp add: shoulderYaw_def keyJoint_shoulders rawTrunkYaw_def homeVec_def yawDeg_y wrap180_id)

lemma shoulderYaw_diag: "shoulderYaw False (shoulders (1, - 1, z)) = Some 135"
  by (simp add: shoulderYaw_def keyJoint_shoulders rawTrunkYaw_def homeVec_def yawDeg_diag wrap180_id)

section \<open>Trunk rotation\<close>



text \<open>
  C4: the code at an input where the claim does not hold. With 135 degrees stored from the
  first frame and a raw yaw of -90 degrees in the second, unwrapToPrev returns -90, a jump
  of 225 degrees where 270 would be a jump of 135, and the engine shows 67.5 degrees
  where the smoothing of 135 and 270 gives 175.5.
\<close>

theorem metrics_trunk_crossing:
  "map joints trackCross = [shoulders (1, - 1, 0), shoulders (0, 1, 0)] \<and>
   metricsTrunk False None (shoulders (1, - 1, 0)) = (Some 135, Some 135) \<and>
   shoulderYaw False (shoulders (0, 1, 0)) = Some (- 90) \<and>
   unwrapToPrev (- 90) 135 = - 90 \<and>
   trunkRotDeg (fst (metrics None False (Some 135) (shoulders (0, 1, 0)))) = Some (135 / 2) \<and>
   engineTrunkRaw False trackCross = [Some 135, Some (135 / 2)]"
proof -
  have u: "unwrapToPrev (- 90) 135 = - 90"
    by (simp add: angle_loops)
  have a: "metricsTrunk False None (shoulders (1, - 1, 0)) = (Some 135, Some 135)"
    by (simp add: metricsTrunk_def shoulderYaw_diag wrap180_id)
  have y: "shoulderYaw False (shoulders (0, 1, 0)) = Some (- 90)"
    by (simp add: shoulderYaw_y)
  have b: "metricsTrunk False (Some 135) (shoulders (0, 1, 0)) = (Some (135 / 2), Some (135 / 2))"
    by (simp add: metricsTrunk_def shoulderYaw_y u wrap180_id Let_def)
  have c: "trunkRotDeg (fst (metrics None False (Some 135) (shoulders (0, 1, 0)))) = Some (135 / 2)"
    by (simp add: metrics_def Let_def b)
  have j: "map joints trackCross = [shoulders (1, - 1, 0), shoulders (0, 1, 0)]"
    by (simp add: trackCross_def framesOf_def framesAt_def)
  have d: "engineTrunkRaw False trackCross = [Some 135, Some (135 / 2)]"
    by (simp add: engineTrunkRaw_def j a b)
  show ?thesis
    using a u c d j y by simp
qed

section \<open>The trunk series against the engine\<close>






section \<open>The display smoother blends with weight 0.35\<close>





text \<open>
  A first joint with the name of a property that objects inherit makes the smoother
  throw.
\<close>

lemma frameJoints_inherited_name: "frameJoints [] [(''constructor'', (1, 2, 3))] = Inl TypeError"
  by (simp add: frameJoints_def protoNames_def)



section \<open>Hand detection compares mean displacements\<close>

lemma swapKey_invol: "swapKey (swapKey k) = k"
  by (simp add: swapKey_def)

lemma map_of_swapJoints: "map_of (swapJoints J) k = map_of J (swapKey k)"
proof (induction J)
  case Nil
  show ?case by (simp add: swapJoints_def)
next
  case (Cons e J)
  obtain k' v where e: "e = (k', v)" by (cases e)
  have "swapKey k' = k \<longleftrightarrow> k' = swapKey k"
    using swapKey_invol by metis
  with Cons e show ?case
    by (auto simp: swapJoints_def swapKey_invol)
qed

lemma wrist_swap: "wristR (swapJoints J) = wristL J" "wristL (swapJoints J) = wristR J"
  by (simp_all add: wristR_def wristL_def map_of_swapJoints swapKey_def)

lemma wristStep_swap:
  "i < length fs \<Longrightarrow> wristStep (swapWrists fs) (swapAcc acc) i = swapAcc (wristStep fs acc i)"
  by (cases acc) (simp add: wristStep_def swapWrists_def wrist_swap Let_def)

lemma foldl_swap:
  "\<forall>i \<in> set is. i < length fs \<Longrightarrow>
   foldl (wristStep (swapWrists fs)) (swapAcc acc) is = swapAcc (foldl (wristStep fs) acc is)"
  by (induction "is" arbitrary: acc) (simp_all add: wristStep_swap)

lemma wristSums_swap: "wristSums (swapWrists fs) = swapAcc (wristSums fs)"
proof -
  have "foldl (wristStep (swapWrists fs)) (swapAcc (0, 0, 0, 0)) [nat \<lfloor>real (length fs) * 0.75\<rfloor> + 1 ..< length fs]
      = swapAcc (foldl (wristStep fs) (0, 0, 0, 0) [nat \<lfloor>real (length fs) * 0.75\<rfloor> + 1 ..< length fs])"
    by (rule foldl_swap) simp
  then show ?thesis
    by (simp add: wristSums_def swapWrists_def)
qed

lemma detect_swap: "detectHandedness (swapWrists fs) = flipHand (detectHandedness fs)"
proof (cases "fs = []")
  case True
  then show ?thesis by (simp add: detectHandedness_def swapWrists_def)
next
  case False
  obtain rx lx rc lc where w: "wristSums fs = (rx, lx, rc, lc)"
    by (cases "wristSums fs")
  then have "wristSums (swapWrists fs) = (lx, rx, lc, rc)"
    by (simp add: wristSums_swap)
  with w False show ?thesis
    by (simp add: detectHandedness_def swapWrists_def Let_def)
qed

lemma wristStep_zero:
  assumes "wristStep fs (rx, lx, rc, lc) i = (rx', lx', rc', lc')"
    and "rc = 0 \<longrightarrow> rx = 0" and "lc = 0 \<longrightarrow> lx = 0"
  shows "(rc' = 0 \<longrightarrow> rx' = 0) \<and> (lc' = 0 \<longrightarrow> lx' = 0)"
  using assms by (auto simp: wristStep_def Let_def split: option.splits)

lemma foldl_zero:
  "foldl (wristStep fs) (rx, lx, rc, lc) is = (rx', lx', rc', lc') \<Longrightarrow>
   rc = 0 \<longrightarrow> rx = 0 \<Longrightarrow> lc = 0 \<longrightarrow> lx = 0 \<Longrightarrow>
   (rc' = 0 \<longrightarrow> rx' = 0) \<and> (lc' = 0 \<longrightarrow> lx' = 0)"
proof (induction "is" arbitrary: rx lx rc lc)
  case Nil
  then show ?case by simp
next
  case (Cons i "is")
  obtain a b c d where st: "wristStep fs (rx, lx, rc, lc) i = (a, b, c, d)"
    by (cases "wristStep fs (rx, lx, rc, lc) i")
  from wristStep_zero [OF st Cons.prems(2,3)] have "c = 0 \<longrightarrow> a = 0" "d = 0 \<longrightarrow> b = 0"
    by simp_all
  with Cons.IH [of a b c d] Cons.prems(1) st show ?case
    by simp
qed

lemma wristSums_zero:
  "wristSums fs = (rx, lx, rc, lc) \<Longrightarrow> (rc = 0 \<longrightarrow> rx = 0) \<and> (lc = 0 \<longrightarrow> lx = 0)"
proof -
  assume "wristSums fs = (rx, lx, rc, lc)"
  then have "foldl (wristStep fs) (0, 0, 0, 0) [nat \<lfloor>real (length fs) * 0.75\<rfloor> + 1 ..< length fs]
      = (rx, lx, rc, lc)"
    by (simp add: wristSums_def)
  from foldl_zero [OF this] show ?thesis
    by simp
qed

text \<open>
  C5 (as amended). For every track with frames, hand detection accumulates, over the frame
  pairs of the last quarter, the x-displacement of each wrist and the number of pairs in
  which that wrist is present in both frames. It returns "R" exactly when the right
  wrist's mean displacement per counted pair (0 when none is counted) is less than the
  left's, "L" exactly when the left's is less, and unknown exactly when the two means are
  equal. When both wrists are counted over the same number of pairs this is the
  comparison of the net displacements. Exchanging the two wrists' trajectories turns "R"
  into "L" and "L" into "R".
\<close>

theorem detectHandedness_mean:
  assumes "fs \<noteq> []" and "wristSums fs = (rx, lx, rc, lc)"
  shows "(detectHandedness fs = HandR \<longleftrightarrow> meanStep rx rc < meanStep lx lc) \<and>
         (detectHandedness fs = HandL \<longleftrightarrow> meanStep lx lc < meanStep rx rc) \<and>
         (detectHandedness fs = HandUnknown \<longleftrightarrow> meanStep rx rc = meanStep lx lc) \<and>
         (rc = lc \<longrightarrow> (detectHandedness fs = HandR \<longleftrightarrow> rx < lx) \<and>
                      (detectHandedness fs = HandL \<longleftrightarrow> lx < rx) \<and>
                      (detectHandedness fs = HandUnknown \<longleftrightarrow> rx = lx)) \<and>
         detectHandedness (swapWrists fs) = flipHand (detectHandedness fs)"
proof -
  have zero: "rc = 0 \<longrightarrow> rx = 0" "lc = 0 \<longrightarrow> lx = 0"
    using wristSums_zero [OF assms(2)] by simp_all
  have mean: "rc = lc \<Longrightarrow> (meanStep rx rc < meanStep lx lc \<longleftrightarrow> rx < lx) \<and>
      (meanStep lx lc < meanStep rx rc \<longleftrightarrow> lx < rx) \<and> (meanStep rx rc = meanStep lx lc \<longleftrightarrow> rx = lx)"
    using zero by (cases "lc = 0") (auto simp: meanStep_def divide_less_cancel)
  have d: "(detectHandedness fs = HandR \<longleftrightarrow> meanStep rx rc < meanStep lx lc) \<and>
         (detectHandedness fs = HandL \<longleftrightarrow> meanStep lx lc < meanStep rx rc) \<and>
         (detectHandedness fs = HandUnknown \<longleftrightarrow> meanStep rx rc = meanStep lx lc)"
    using assms by (auto simp: detectHandedness_def Let_def)
  show ?thesis
    using d mean detect_swap [of fs] by simp
qed

theorem detectHandedness_mean_witness:
  "trackRight \<noteq> [] \<and>
   wristSums trackRight = (- 2, - 1, 1, 1) \<and>
   detectHandedness trackRight = HandR \<and>
   detectHandedness (swapWrists trackRight) = HandL"
proof -
  have tr: "trackRight = [\<lparr> time = Fin 0, joints = [] \<rparr>, \<lparr> time = Fin (1 / 300), joints = [] \<rparr>,
     \<lparr> time = Fin (2 / 300), joints = [] \<rparr>,
     \<lparr> time = Fin (3 / 300), joints = [(''rWrist'', (0, 0, 0)), (''lWrist'', (0, 0, 0))] \<rparr>,
     \<lparr> time = Fin (4 / 300), joints = [(''rWrist'', (- 2, 0, 0)), (''lWrist'', (- 1, 0, 0))] \<rparr>]"
    by (simp add: trackRight_def framesOf_def framesAt_def indexOver_def eval_nat_numeral)
  have ne: "trackRight \<noteq> []"
    by (simp add: tr)
  have w: "wristSums trackRight = (- 2, - 1, 1, 1)"
    by (simp add: wristSums_def tr wristStep_def wristR_def wristL_def upt_rec Let_def)
  show ?thesis
    using ne w detectHandedness_mean [OF ne w] by simp
qed

text \<open>
  C5 as stated fails: on \<open>trackUneven\<close> the right wrist's net displacement, -3, is
  more negative than the left's, -2, and the answer is "L": the means are -1.5 and -2.
\<close>

theorem detectHandedness_net_counterexample:
  "wristSums trackUneven = (- 3, - 2, 2, 1) \<and> detectHandedness trackUneven = HandL"
proof -
  have tu: "trackUneven = [\<lparr> time = Fin 0, joints = [] \<rparr>, \<lparr> time = Fin (1 / 300), joints = [] \<rparr>,
     \<lparr> time = Fin (2 / 300), joints = [] \<rparr>, \<lparr> time = Fin (3 / 300), joints = [] \<rparr>,
     \<lparr> time = Fin (4 / 300), joints = [] \<rparr>, \<lparr> time = Fin (5 / 300), joints = [] \<rparr>,
     \<lparr> time = Fin (6 / 300), joints = [(''rWrist'', (0, 0, 0))] \<rparr>,
     \<lparr> time = Fin (7 / 300), joints = [(''rWrist'', (- 3 / 2, 0, 0)), (''lWrist'', (0, 0, 0))] \<rparr>,
     \<lparr> time = Fin (8 / 300), joints = [(''rWrist'', (- 3, 0, 0)), (''lWrist'', (- 2, 0, 0))] \<rparr>]"
    by (simp add: trackUneven_def framesOf_def framesAt_def indexOver_def eval_nat_numeral)
  have ws: "wristSums trackUneven = (- 3, - 2, 2, 1)"
    by (simp add: wristSums_def tu wristStep_def wristR_def wristL_def upt_rec Let_def)
  have "detectHandedness trackUneven = HandL"
    by (simp add: detectHandedness_def ws meanStep_def) (simp add: tu)
  with ws show ?thesis by simp
qed

section \<open>Release time extraction\<close>

lemma findPitch_returns:
  "\<forall>e \<in> set es. stringable (getProp e ''type'') \<Longrightarrow> \<exists>p. findPitch H es = Inr p"
proof (induction es)
  case Nil
  show ?case by simp
next
  case (Cons e es)
  then have "stringable (orTruthy (getProp e ''type'') (JStr []))"
    by (simp add: orTruthy_def)
  with Cons show ?case
    by (simp add: toStringE_def)
qed

lemma pitchEvt_releaseDoc:
  "pitchEvt plainHost (releaseDoc rel) = Inr (JObj [(''type'', JStr ''Pitch''), (''releaseTimeUTC'', rel)])"
proof -
  have up: "toUpperCase ''contact'' = ''CONTACT''" "toUpperCase ''Pitch'' = ''PITCH''"
    by code_simp+
  show ?thesis
    by (simp add: pitchEvt_def releaseDoc_def orElse_def toStringE_def orTruthy_def up)
qed

lemma relUTC_releaseDoc:
  "relUTC (JObj [(''type'', JStr ''Pitch''), (''releaseTimeUTC'', rel)]) = orElse rel JNull"
  by (simp add: relUTC_def orElse_def)

lemma startUTC_releaseDoc: "startUTC (releaseDoc rel) = JNum (Fin 1000)"
  by (simp add: startUTC_def releaseDoc_def orElse_def)

lemma newDate_plainHost:
  "newDate plainHost (JNum (Fin r)) = Inr (Some r)"
  "newDate plainHost (JStr t) = Inr None"
  by (simp_all add: newDate_def plainHost_def)

text \<open>An event whose type is an object with a property \<^verbatim>\<open>toString\<close> makes the search throw.\<close>

lemma extractReleaseSeconds_throws:
  "extractReleaseSecondsFromJson H
     (JObj [(''events'', JArr [JObj [(''type'', JObj [(''toString'', JNum (Fin 1))])]])]) = Inl TypeError"
  by (simp add: extractReleaseSecondsFromJson_def pitchEvt_def orElse_def orTruthy_def toStringE_def)

text \<open>
  C8 (as amended). Let the search for the PITCH event return, with the event \<open>p\<close> or
  with \<^verbatim>\<open>undefined\<close>. Release-timestamp extraction then returns \<^verbatim>\<open>undefined\<close> exactly
  when the release time or the clip start is absent (missing, null or otherwise falsy).
  When both are present, it throws exactly when one of them is an object that cannot be
  converted; otherwise it returns (releaseTime - clipStartTime) / 1000 when both parse
  as dates, and NaN when one of them does not.
\<close>

theorem extractReleaseSeconds_cases:
  assumes "pitchEvt H doc = Inr p"
  shows "(extractReleaseSecondsFromJson H doc = Inr None \<longleftrightarrow>
            \<not> truthy (relUTC p) \<or> \<not> truthy (startUTC doc)) \<and>
         (truthy (relUTC p) \<and> truthy (startUTC doc) \<longrightarrow>
            (extractReleaseSecondsFromJson H doc = Inl TypeError \<longleftrightarrow>
               \<not> stringable (relUTC p) \<or> \<not> stringable (startUTC doc)) \<and>
            (\<forall>rel start. newDate H (relUTC p) = Inr (Some rel) \<and> newDate H (startUTC doc) = Inr (Some start) \<longrightarrow>
               extractReleaseSecondsFromJson H doc = Inr (Some (Fin ((rel - start) / 1000)))) \<and>
            (newDate H (relUTC p) = Inr None \<and> stringable (startUTC doc) \<or>
             stringable (relUTC p) \<and> newDate H (startUTC doc) = Inr None \<longrightarrow>
               extractReleaseSecondsFromJson H doc = Inr (Some NaN)))"
proof (intro conjI impI)
  show "extractReleaseSecondsFromJson H doc = Inr None \<longleftrightarrow>
          \<not> truthy (relUTC p) \<or> \<not> truthy (startUTC doc)"
    using assms by (auto simp: extractReleaseSecondsFromJson_def split: sum.splits)
next
  assume t: "truthy (relUTC p) \<and> truthy (startUTC doc)"
  show "extractReleaseSecondsFromJson H doc = Inl TypeError \<longleftrightarrow>
          \<not> stringable (relUTC p) \<or> \<not> stringable (startUTC doc)"
    using assms t by (auto simp: extractReleaseSecondsFromJson_def newDate_def split: sum.splits)
next
  assume t: "truthy (relUTC p) \<and> truthy (startUTC doc)"
  show "\<forall>rel start. newDate H (relUTC p) = Inr (Some rel) \<and> newDate H (startUTC doc) = Inr (Some start) \<longrightarrow>
          extractReleaseSecondsFromJson H doc = Inr (Some (Fin ((rel - start) / 1000)))"
    using assms t by (simp add: extractReleaseSecondsFromJson_def)
next
  assume t: "truthy (relUTC p) \<and> truthy (startUTC doc)"
    and n: "newDate H (relUTC p) = Inr None \<and> stringable (startUTC doc) \<or>
            stringable (relUTC p) \<and> newDate H (startUTC doc) = Inr None"
  from n show "extractReleaseSecondsFromJson H doc = Inr (Some NaN)"
  proof
    assume a: "newDate H (relUTC p) = Inr None \<and> stringable (startUTC doc)"
    then obtain s where "newDate H (startUTC doc) = Inr s"
      by (simp add: newDate_def)
    with a assms t show ?thesis
      by (simp add: extractReleaseSecondsFromJson_def)
  next
    assume a: "stringable (relUTC p) \<and> newDate H (startUTC doc) = Inr None"
    then obtain r where "newDate H (relUTC p) = Inr r"
      by (simp add: newDate_def)
    with a assms t show ?thesis
      by (cases r) (simp_all add: extractReleaseSecondsFromJson_def)
  qed
qed

theorem extractReleaseSeconds_cases_witness:
  "pitchEvt plainHost (releaseDoc (JNum (Fin 3500))) =
     Inr (JObj [(''type'', JStr ''Pitch''), (''releaseTimeUTC'', JNum (Fin 3500))]) \<and>
   truthy (relUTC (JObj [(''type'', JStr ''Pitch''), (''releaseTimeUTC'', JNum (Fin 3500))])) \<and>
   truthy (startUTC (releaseDoc (JNum (Fin 3500)))) \<and>
   newDate plainHost (relUTC (JObj [(''type'', JStr ''Pitch''), (''releaseTimeUTC'', JNum (Fin 3500))])) = Inr (Some 3500) \<and>
   newDate plainHost (startUTC (releaseDoc (JNum (Fin 3500)))) = Inr (Some 1000) \<and>
   extractReleaseSecondsFromJson plainHost (releaseDoc (JNum (Fin 3500))) = Inr (Some (Fin (5 / 2))) \<and>
   pitchEvt plainHost (releaseDoc JUndefined) =
     Inr (JObj [(''type'', JStr ''Pitch''), (''releaseTimeUTC'', JUndefined)]) \<and>
   \<not> truthy (relUTC (JObj [(''type'', JStr ''Pitch''), (''releaseTimeUTC'', JUndefined)])) \<and>
   extractReleaseSecondsFromJson plainHost (releaseDoc JUndefined) = Inr None \<and>
   pitchEvt plainHost (releaseDoc (JStr ''soon'')) =
     Inr (JObj [(''type'', JStr ''Pitch''), (''releaseTimeUTC'', JStr ''soon'')]) \<and>
   truthy (relUTC (JObj [(''type'', JStr ''Pitch''), (''releaseTimeUTC'', JStr ''soon'')])) \<and>
   newDate plainHost (relUTC (JObj [(''type'', JStr ''Pitch''), (''releaseTimeUTC'', JStr ''soon'')])) = Inr None \<and>
   extractReleaseSecondsFromJson plainHost (releaseDoc (JStr ''soon'')) = Inr (Some NaN)"
  using extractReleaseSeconds_cases [OF pitchEvt_releaseDoc [of "JNum (Fin 3500)"]]
    extractReleaseSeconds_cases [OF pitchEvt_releaseDoc [of JUndefined]]
    extractReleaseSeconds_cases [OF pitchEvt_releaseDoc [of "JStr ''soon''"]]
  by (simp add: pitchEvt_releaseDoc relUTC_releaseDoc startUTC_releaseDoc orElse_def newDate_plainHost)

text \<open>
  C8 as stated fails: with a release time that is present and is no date, the result is
  NaN, not \<^verbatim>\<open>undefined\<close>.
\<close>

theorem extractReleaseSeconds_NaN_counterexample:
  "newDate plainHost (JStr ''soon'') = Inr None \<and>
   extractReleaseSecondsFromJson plainHost (releaseDoc (JStr ''soon'')) = Inr (Some NaN) \<and>
   extractReleaseSecondsFromJson plainHost (releaseDoc (JStr ''soon'')) \<noteq> Inr None"
  by (simp add: extractReleaseSecondsFromJson_def pitchEvt_releaseDoc relUTC_releaseDoc
      startUTC_releaseDoc orElse_def newDate_plainHost)

section \<open>The engine without the left hip\<close>

lemma other_keys:
  "\<not> leftHipKey ''rHip''" "\<not> leftHipKey ''rightHip''" "\<not> leftHipKey ''rKnee''"
  "\<not> leftHipKey ''rightKnee''" "\<not> leftHipKey ''rAnkle''" "\<not> leftHipKey ''rightAnkle''"
  "\<not> leftHipKey ''rHeel''" "\<not> leftHipKey ''rightHeel''" "\<not> leftHipKey ''rBigToe''"
  "\<not> leftHipKey ''rightBigToe''" "\<not> leftHipKey ''rShoulder''" "\<not> leftHipKey ''rightShoulder''"
  "\<not> leftHipKey ''rElbow''" "\<not> leftHipKey ''rightElbow''" "\<not> leftHipKey ''rWrist''"
  "\<not> leftHipKey ''rightWrist''" "\<not> leftHipKey ''lShoulder''" "\<not> leftHipKey ''leftShoulder''"
  "\<not> leftHipKey ''midHip''" "\<not> leftHipKey ''pelvis''" "\<not> leftHipKey ''hipCenter''"
  "\<not> leftHipKey ''pelvisCenter''" "\<not> leftHipKey ''chest''" "\<not> leftHipKey ''midShoulder''"
  "\<not> leftHipKey ''upperChest''" "\<not> leftHipKey ''sternum''" "\<not> leftHipKey ''neck''"
  "\<not> leftHipKey ''c7''"
  by code_simp+

lemma same_key:
  "sameButLeftHip J J' \<Longrightarrow> \<not> leftHipKey a \<Longrightarrow> \<not> leftHipKey b \<Longrightarrow> keyJoint J' a b = keyJoint J a b"
  by (simp add: sameButLeftHip_def keyJoint_def)

lemma same_first:
  "sameButLeftHip J J' \<Longrightarrow> \<forall>k \<in> set ks. \<not> leftHipKey k \<Longrightarrow> firstKey J' ks = firstKey J ks"
  by (induction ks) (auto simp: sameButLeftHip_def)

lemma same_rightAnkle: "sameButLeftHip J J' \<Longrightarrow> rightAnkle J' = rightAnkle J"
  using same_first [of J J' "[''rightAnkle'', ''rHeel'', ''rightHeel'', ''rBigToe'', ''rightBigToe'']"]
  by (simp add: rightAnkle_def other_keys) (simp add: sameButLeftHip_def other_keys)

lemma same_chestOf: "sameButLeftHip J J' \<Longrightarrow> chestOf J' = chestOf J"
  using same_first [of J J' "[''midShoulder'', ''upperChest'', ''sternum'']"]
  by (simp add: chestOf_def chestRaw_def same_key other_keys) (simp add: sameButLeftHip_def other_keys)

lemma same_pelvisRaw: "sameButLeftHip J J' \<Longrightarrow> pelvisRaw J' = pelvisRaw J"
  using same_first [of J J' "[''hipCenter'', ''pelvisCenter'']"]
  by (simp add: pelvisRaw_def other_keys) (simp add: sameButLeftHip_def other_keys)

lemma same_trunkUp:
  assumes "sameButLeftHip J J'" and "pelvisRaw J \<noteq> None \<or> keyJoint J ''rHip'' ''rightHip'' = None"
    and "keyJoint J ''lHip'' ''leftHip'' = None"
  shows "trunkUp J' = trunkUp J"
proof -
  have "pelvisOf J' = pelvisOf J"
  proof (cases "pelvisRaw J")
    case None
    with assms(2) have r: "keyJoint J ''rHip'' ''rightHip'' = None" by simp
    then have "keyJoint J' ''rHip'' ''rightHip'' = None"
      using same_key [OF assms(1), of "''rHip''" "''rightHip''"] by (simp add: other_keys)
    with r None assms show ?thesis
      by (cases "keyJoint J' ''lHip'' ''leftHip''") (simp_all add: pelvisOf_def same_pelvisRaw)
  next
    case (Some a)
    with assms(1) show ?thesis
      by (simp add: pelvisOf_def same_pelvisRaw)
  qed
  then show ?thesis
    by (simp add: trunkUp_def same_chestOf [OF assms(1)])
qed

lemma getJoint_append:
  "getJoint (J @ [(k, p)]) jname =
     (case getJoint J jname of Some v \<Rightarrow> Some v
      | None \<Rightarrow> if normKey k = normKey jname then Some p else None)"
  by (induction J) auto

lemma same_append: "leftHipKey k \<Longrightarrow> sameButLeftHip J (J @ [(k, p)])"
  unfolding sameButLeftHip_def
proof (intro allI impI conjI)
  fix k' assume k: "leftHipKey k" and k': "\<not> leftHipKey k'"
  then have ne: "normKey k \<noteq> normKey k'"
    by (auto simp: leftHipKey_def)
  then show "getJoint (J @ [(k, p)]) k' = getJoint J k'"
    by (simp add: getJoint_append split: option.splits)
  from ne have "k \<noteq> k'" by auto
  then show "map_of (J @ [(k, p)]) k' = map_of J k'"
    by (simp add: map_add_def split: option.splits)
qed

text \<open>
  C9 (as amended). For every frame in which the left hip is absent under all of its
  aliases, left knee flexion is unavailable, and right knee flexion and right elbow
  flexion are what they would be with the left hip present. Right abduction is what it
  would be with the left hip present whenever the pelvis is present under an alias of
  its own or the right hip is absent too. The engine is a total function: nothing throws.
\<close>

theorem metrics_without_left_hip:
  assumes "keyJoint J ''lHip'' ''leftHip'' = None" and "sameButLeftHip J J'"
  shows "lKneeFlex (fst (metrics bodyHeight flipHome prev J)) = None \<and>
         rKneeFlex (fst (metrics bodyHeight flipHome prev J')) = rKneeFlex (fst (metrics bodyHeight flipHome prev J)) \<and>
         rElbowFlex (fst (metrics bodyHeight flipHome prev J')) = rElbowFlex (fst (metrics bodyHeight flipHome prev J)) \<and>
         (pelvisRaw J \<noteq> None \<or> keyJoint J ''rHip'' ''rightHip'' = None \<longrightarrow>
            rAbd (fst (metrics bodyHeight flipHome prev J')) = rAbd (fst (metrics bodyHeight flipHome prev J)))"
proof -
  have l: "lKneeFlex (fst (metrics bodyHeight flipHome prev J)) = None"
    using assms(1) by (simp add: metrics_def Let_def)
  have k: "rKneeFlex (fst (metrics bodyHeight flipHome prev J')) = rKneeFlex (fst (metrics bodyHeight flipHome prev J))"
    using assms(2) by (simp add: metrics_def Let_def same_key same_rightAnkle other_keys)
  have e: "rElbowFlex (fst (metrics bodyHeight flipHome prev J')) = rElbowFlex (fst (metrics bodyHeight flipHome prev J))"
    using same_first [OF assms(2), of "[''rShoulder'', ''rightShoulder'']"]
      same_first [OF assms(2), of "[''rElbow'', ''rightElbow'']"]
      same_first [OF assms(2), of "[''rWrist'', ''rightWrist'']"]
    by (simp add: metrics_def Let_def pickJoint_def other_keys)
  have a: "rAbd (fst (metrics bodyHeight flipHome prev J')) = rAbd (fst (metrics bodyHeight flipHome prev J))"
    if "pelvisRaw J \<noteq> None \<or> keyJoint J ''rHip'' ''rightHip'' = None"
    using same_trunkUp [OF assms(2) that assms(1)] assms(2)
    by (simp add: metrics_def Let_def same_key other_keys)
  from l k e a show ?thesis by blast
qed

lemma leftHipKey_lHip: "leftHipKey ''lHip''" by code_simp

lemma rightSide_joints: "keyJoint rightSide ''lHip'' ''leftHip'' = None"
  "keyJoint ((''pelvis'', (0, 0, 0)) # rightSide) ''lHip'' ''leftHip'' = None"
  "pelvisRaw ((''pelvis'', (0, 0, 0)) # rightSide) = Some (0, 0, 0)"
  "pelvisRaw rightSide = None"
  "pelvisOf rightSide = None"
  "pelvisOf (rightSide @ [(''lHip'', (0, 0, 0))]) = Some (0, 0, 0)"
  "chestOf rightSide = Some (1, 0, 0)"
  "chestOf (rightSide @ [(''lHip'', (0, 0, 0))]) = Some (1, 0, 0)"
  "keyJoint rightSide ''rShoulder'' ''rightShoulder'' = Some (0, 0, 0)"
  "keyJoint rightSide ''rElbow'' ''rightElbow'' = Some (1, 0, 0)"
  "keyJoint (rightSide @ [(''lHip'', (0, 0, 0))]) ''rShoulder'' ''rightShoulder'' = Some (0, 0, 0)"
  "keyJoint (rightSide @ [(''lHip'', (0, 0, 0))]) ''rElbow'' ''rightElbow'' = Some (1, 0, 0)"
  by code_simp+

lemma trunkUp_rightSide: "trunkUp rightSide = (0, 1, 0)"
  by (simp add: trunkUp_def rightSide_joints)

lemma trunkUp_rightSide_lHip: "trunkUp (rightSide @ [(''lHip'', (0, 0, 0))]) = (1, 0, 0)"
  by (simp add: trunkUp_def rightSide_joints lengthSq_def normalize_def vlength_def)

lemma fold90_0: "fold90 0 = 0" by (simp add: fold90_def jsRem_def)
lemma fold90_90: "fold90 90 = 90" by (simp add: fold90_def jsRem_def)

lemma rAbd_rightSide: "rAbd (fst (metrics None False None rightSide)) = Some 90"
  by (simp add: metrics_def Let_def rightSide_joints trunkUp_rightSide abduction_def lengthSq_def
      normalize_def vlength_def angleTo_def clamp_def radToDeg_def fold90_90)

lemma rAbd_rightSide_lHip:
  "rAbd (fst (metrics None False None (rightSide @ [(''lHip'', (0, 0, 0))]))) = Some 0"
  by (simp add: metrics_def Let_def rightSide_joints trunkUp_rightSide_lHip abduction_def lengthSq_def
      normalize_def vlength_def angleTo_def clamp_def radToDeg_def fold90_0)

theorem metrics_without_left_hip_witness:
  "keyJoint ((''pelvis'', (0, 0, 0)) # rightSide) ''lHip'' ''leftHip'' = None \<and>
   sameButLeftHip ((''pelvis'', (0, 0, 0)) # rightSide)
     (((''pelvis'', (0, 0, 0)) # rightSide) @ [(''lHip'', (0, 0, 0))]) \<and>
   pelvisRaw ((''pelvis'', (0, 0, 0)) # rightSide) \<noteq> None \<and>
   lKneeFlex (fst (metrics None False None ((''pelvis'', (0, 0, 0)) # rightSide))) = None \<and>
   rAbd (fst (metrics None False None (((''pelvis'', (0, 0, 0)) # rightSide) @ [(''lHip'', (0, 0, 0))]))) =
     rAbd (fst (metrics None False None ((''pelvis'', (0, 0, 0)) # rightSide)))"
proof -
  have a: "keyJoint ((''pelvis'', (0, 0, 0)) # rightSide) ''lHip'' ''leftHip'' = None"
    by (rule rightSide_joints)
  have b: "sameButLeftHip ((''pelvis'', (0, 0, 0)) # rightSide)
     (((''pelvis'', (0, 0, 0)) # rightSide) @ [(''lHip'', (0, 0, 0))])"
    by (rule same_append [OF leftHipKey_lHip])
  have c: "pelvisRaw ((''pelvis'', (0, 0, 0)) # rightSide) \<noteq> None"
    by (simp add: rightSide_joints)
  show ?thesis
    using a b c metrics_without_left_hip [OF a b, of None False None] by simp
qed

text \<open>
  C9 as stated fails for right abduction: in \<open>rightSide\<close> the pelvis comes from the two
  hips, so without the left hip the trunk-up axis falls back to (0, 1, 0) and the right
  abduction is 90 degrees, where it is 0 with the left hip present.
\<close>

theorem metrics_rAbd_counterexample:
  "keyJoint rightSide ''lHip'' ''leftHip'' = None \<and>
   sameButLeftHip rightSide (rightSide @ [(''lHip'', (0, 0, 0))]) \<and>
   rAbd (fst (metrics None False None rightSide)) = Some 90 \<and>
   rAbd (fst (metrics None False None (rightSide @ [(''lHip'', (0, 0, 0))]))) = Some 0"
  using rightSide_joints(1) same_append [OF leftHipKey_lHip, of rightSide "(0, 0, 0)"]
    rAbd_rightSide rAbd_rightSide_lHip
  by simp

section \<open>What the detectors return\<close>














subsection \<open>Finite numbers\<close>









subsection \<open>The foot-strike scan\<close>



lemma strike_fold_none:
  "\<forall>i \<in> set ixs. \<not> localMin Y i \<Longrightarrow> foldl (strikeStep Y Vy Vh dYaw) st ixs = st"
  by (induction ixs arbitrary: st) (simp_all add: strikeStep_def)















end
